theory Spec2Isabelle
  imports Complex_Main
begin

section \<open>Python values shared by the services\<close>

text \<open>
  Python \<open>str\<close> values are modelled as \<open>string\<close> (lists of 8-bit characters holding
  the UTF-8 encoding); the separator \<open>.\<close> and the letters of the allowed extensions
  are ASCII, so splitting and comparing act on bytes as they act on code points.
  Exceptions are values of \<open>exn\<close>; every one of them is a subclass of Python's
  \<open>Exception\<close>, which is what the handlers of the source catch.
\<close>

datatype exn =
    AttributeError
  | TypeError
  | KeyError
  | ValueError
  | DoesNotExist
  | MultipleObjectsReturned
  | IndexError
  | ValidationError
  | LibraryError string

text \<open>\<open>s.split(c)\<close>: the segments between the occurrences of \<open>c\<close>; never empty.\<close>

fun split_str :: "char \<Rightarrow> string \<Rightarrow> string list" where
  "split_str c [] = [[]]"
| "split_str c (x # xs) =
     (if x = c then [] # split_str c xs
      else (case split_str c xs of
              [] \<Rightarrow> [[x]]
            | w # ws \<Rightarrow> (x # w) # ws))"

text \<open>\<open>s.rsplit(c, 1)\<close>: one split at the last occurrence of \<open>c\<close>, or \<open>[s]\<close>.\<close>

definition rsplit1 :: "char \<Rightarrow> string \<Rightarrow> string list" where
  "rsplit1 c s =
     (if c \<in> set s
      then [rev (drop 1 (dropWhile (\<lambda>x. x \<noteq> c) (rev s))),
            rev (takeWhile (\<lambda>x. x \<noteq> c) (rev s))]
      else [s])"

text \<open>
  \<open>s.lower()\<close> on the ASCII letters; other bytes are kept. (Python lowers non-ASCII
  letters too, to non-ASCII text or, for the Kelvin sign, to \<open>k\<close>: none of these is a
  letter of an allowed extension, so membership in the allowed set is the same.)
\<close>

definition lower_char :: "char \<Rightarrow> char" where
  "lower_char c =
     (let n = (of_char c :: nat)
      in if 65 \<le> n \<and> n \<le> 90 then char_of (n + 32) else c)"

definition py_lower :: "string \<Rightarrow> string" where
  "py_lower s = map lower_char s"

text \<open>
  A Python \<open>float\<close> is a binary64 number. A finite one is modelled by the rational
  number it denotes, and an operation gives the exact result rounded to the nearest
  binary64 number, a tie going to the even mantissa. NaN, the infinities and overflow
  (a magnitude of \<open>2 ^ 1024\<close> or more) are not modelled.
\<close>

text \<open>The nearest integer, a tie going to the even one.\<close>

definition round_half_even :: "rat \<Rightarrow> int" where
  "round_half_even y =
     (let f = \<lfloor>y\<rfloor>;
          d = y - of_int f
      in if d < 1 / 2 then f
         else if 1 / 2 < d then f + 1
         else if even f then f else f + 1)"

text \<open>The number of binary digits of a natural number.\<close>

fun bit_length :: "nat \<Rightarrow> nat" where
  "bit_length n = (if n = 0 then 0 else Suc (bit_length (n div 2)))"

definition pow2 :: "int \<Rightarrow> rat" where
  "pow2 e = (if 0 \<le> e then 2 ^ nat e else 1 / 2 ^ nat (- e))"

text \<open>For \<open>x > 0\<close>, the exponent \<open>e\<close> with \<open>2 ^ e \<le> x < 2 ^ (e + 1)\<close>.\<close>

definition floor_log2 :: "rat \<Rightarrow> int" where
  "floor_log2 x =
     (if 1 \<le> x then int (bit_length (nat \<lfloor>x\<rfloor>)) - 1
      else - int (bit_length (nat (\<lceil>1 / x\<rceil> - 1))))"

text \<open>
  Rounding to binary64: 53 binary digits from the leading one, and for the subnormal
  numbers the multiples of \<open>2 ^ - 1074\<close>.
\<close>

definition to_binary64 :: "rat \<Rightarrow> rat" where
  "to_binary64 x =
     (if x = 0 then 0
      else (let e = max (floor_log2 \<bar>x\<bar>) (- 1022) - 52
            in of_int (round_half_even (x / pow2 e)) * pow2 e))"

text \<open>\<open>a * b\<close> on floats.\<close>

definition float_mul :: "rat \<Rightarrow> rat \<Rightarrow> rat" where
  "float_mul a b = to_binary64 (a * b)"

text \<open>
  \<open>round(x, 2)\<close> on a float: the exact value of \<open>x\<close> is rounded to two decimals, a tie
  going to the even digit, and the float nearest to that decimal number is returned.
\<close>

definition py_round2 :: "rat \<Rightarrow> rat" where
  "py_round2 x = to_binary64 (of_int (round_half_even (x * 100)) / 100)"

section \<open>Predictions of the inference service\<close>

text \<open>
  A prediction is a dict read with \<open>get('class', 'Unknown')\<close>, \<open>get('confidence', 0)\<close>
  and \<open>'points' in pred\<close>: each key may be absent. A point is a dict read with
  \<open>p['x']\<close> and \<open>p['y']\<close>. The result of an inference is a dict read with
  \<open>get('predictions', [])\<close>.
\<close>

type_synonym raw_point = "int option \<times> int option"

record prediction =
  pclass :: "string option"
  confidence :: "rat option"
  points :: "raw_point list option"

record inference_result =
  predictions :: "prediction list option"

definition not_found_label :: string where
  "not_found_label = ''Predicci'' @ [char_of (195::nat), char_of (179::nat)] @ ''n no encontrada''"

text \<open>\<open>ImageProcessingService.extract_prediction_data\<close>\<close>

definition extract_prediction_data :: "inference_result \<Rightarrow> string \<times> rat" where
  "extract_prediction_data result =
     (let preds = (case predictions result of None \<Rightarrow> [] | Some ps \<Rightarrow> ps)
      in case preds of
           [] \<Rightarrow> (not_found_label, 0)
         | first_pred # _ \<Rightarrow>
             (let class_prediction = (case pclass first_pred of None \<Rightarrow> ''Unknown'' | Some c \<Rightarrow> c);
                  conf = float_mul (case confidence first_pred of None \<Rightarrow> 0 | Some c \<Rightarrow> c) 100;
                  grupo = (if class_prediction = ''Sin Hernia'' then ''Sin Hernia'' else ''Hernia'');
                  porcentaje = py_round2 conf
              in (grupo, porcentaje)))"

section \<open>Stored file names\<close>

text \<open>
  \<open>ImageProcessingService.generate_encrypted_filename\<close>. The digest is computed by
  \<open>hashlib\<close>, which is not part of the repository: \<open>sha256_hexdigest\<close> is a parameter,
  standing for \<open>hashlib.sha256(name.encode()).hexdigest()\<close>, whose value is always
  64 hexadecimal characters.
\<close>

definition generate_encrypted_filename :: "(string \<Rightarrow> string) \<Rightarrow> string \<Rightarrow> string" where
  "generate_encrypted_filename sha256_hexdigest original_name =
     (let encrypted_name = sha256_hexdigest original_name;
          extension = last (split_str (CHR ''.'') original_name)
      in encrypted_name @ ''.'' @ extension)"


text \<open>A stand-in digest of 64 characters, to run the definitions on.\<close>

definition toy_digest :: "string \<Rightarrow> string" where
  "toy_digest s = take 64 (s @ replicate 64 (CHR ''0''))"

section \<open>Image validation\<close>

definition ALLOWED_EXTENSIONS :: "string set" where
  "ALLOWED_EXTENSIONS = {''jpg'', ''jpeg'', ''png'', ''gif'', ''bmp''}"

definition MAX_FILE_SIZE :: int where
  "MAX_FILE_SIZE = 10 * 1024 * 1024"

definition MIN_DIMENSION :: int where
  "MIN_DIMENSION = 100"

definition MAX_DIMENSION :: int where
  "MAX_DIMENSION = 10000"

text \<open>\<open>ImageValidator.validate_file_extension\<close>\<close>

definition validate_file_extension :: "string \<Rightarrow> bool" where
  "validate_file_extension filename =
     (let extension = py_lower (last (rsplit1 (CHR ''.'') filename))
      in extension \<in> ALLOWED_EXTENSIONS)"

text \<open>\<open>ImageValidator.validate_file_size\<close>\<close>

definition validate_file_size :: "int \<Rightarrow> bool" where
  "validate_file_size file_size = (0 < file_size \<and> file_size \<le> MAX_FILE_SIZE)"

text \<open>\<open>ImageValidator.validate_image_dimensions\<close>; \<open>image.size\<close> is (width, height).\<close>

record image =
  width :: int
  height :: int

definition validate_image_dimensions :: "image \<Rightarrow> bool" where
  "validate_image_dimensions img =
     ((MIN_DIMENSION \<le> width img \<and> width img \<le> MAX_DIMENSION) \<and>
      (MIN_DIMENSION \<le> height img \<and> height img \<le> MAX_DIMENSION))"

text \<open>
  The uploaded file object: \<open>file_obj.name\<close>, \<open>file_obj.size\<close> (here \<open>size_bytes\<close>)
  and the byte stream, whose state (content and cursor) is of an abstract type \<open>'s\<close>.
  The view passes \<open>request.FILES.get('imagen')\<close>, which is \<open>None\<close> when no file came:
  reading \<open>.name\<close> of it raises \<open>AttributeError\<close>.

  The imaging library is not part of the repository; its calls are parameters:
  \<open>Image.open(file_obj)\<close>, \<open>image.verify()\<close>, \<open>file_obj.seek(0)\<close>. Each call reads or
  moves the stream and may raise: it gives its outcome and the stream as it leaves it.
\<close>

record 's uploaded_file =
  name :: string
  size_bytes :: int
  stream :: 's

record 's pil =
  Image_open :: "'s \<Rightarrow> (exn + image) \<times> 's"
  verify :: "image \<Rightarrow> 's \<Rightarrow> exn option \<times> 's"
  seek0 :: "'s \<Rightarrow> exn option \<times> 's"

definition msg_format :: string where
  "msg_format = ''Formato de archivo no permitido''"

text \<open>The f-string interpolates \<open>MAX_FILE_SIZE / 1024 / 1024\<close>, which prints as \<open>10.0\<close>.\<close>

definition msg_size :: string where
  "msg_size = ''Archivo demasiado grande (m'' @ [char_of (195::nat), char_of (161::nat)]
                @ ''ximo 10.0MB)''"

definition msg_invalid :: string where
  "msg_invalid = ''Archivo no es una imagen v'' @ [char_of (195::nat), char_of (161::nat)]
                   @ ''lida''"

definition msg_dimensions :: string where
  "msg_dimensions = ''Dimensiones inv'' @ [char_of (195::nat), char_of (161::nat)]
                      @ ''lidas (100-10000px)''"

definition msg_error :: string where
  "msg_error = ''Error al validar la imagen''"

text \<open>
  The statements of the inner \<open>try\<close>: open, verify, rewind, open again. The first
  exception ends the block, with the stream as the raising call left it.
\<close>

definition decode_image :: "'s pil \<Rightarrow> 's \<Rightarrow> (exn + image) \<times> 's" where
  "decode_image lib s =
     (case Image_open lib s of
        (Inl e, s1) \<Rightarrow> (Inl e, s1)
      | (Inr img, s1) \<Rightarrow>
          (case verify lib img s1 of
             (Some e, s2) \<Rightarrow> (Inl e, s2)
           | (None, s2) \<Rightarrow>
               (case seek0 lib s2 of
                  (Some e, s3) \<Rightarrow> (Inl e, s3)
                | (None, s3) \<Rightarrow>
                    (case Image_open lib s3 of
                       (Inl e, s4) \<Rightarrow> (Inl e, s4)
                     | (Inr img', s4) \<Rightarrow> (Inr img', s4)))))"

text \<open>
  The body of the outer \<open>try\<close> of \<open>ImageValidator.validate_image\<close>: what it returns or
  raises, and the file object as it leaves it.
\<close>

definition validate_image_body ::
  "'s pil \<Rightarrow> 's uploaded_file option
     \<Rightarrow> (exn + (bool \<times> string option)) \<times> 's uploaded_file option" where
  "validate_image_body lib file_obj =
     (case file_obj of
        None \<Rightarrow> (Inl AttributeError, None)
      | Some f \<Rightarrow>
          if \<not> validate_file_extension (name f) then (Inr (False, Some msg_format), Some f)
          else if \<not> validate_file_size (size_bytes f) then (Inr (False, Some msg_size), Some f)
          else (case decode_image lib (stream f) of
                  (Inl e, s') \<Rightarrow> (Inr (False, Some msg_invalid), Some (f\<lparr>stream := s'\<rparr>))
                | (Inr img, s') \<Rightarrow>
                    if \<not> validate_image_dimensions img
                    then (Inr (False, Some msg_dimensions), Some (f\<lparr>stream := s'\<rparr>))
                    else (Inr (True, None), Some (f\<lparr>stream := s'\<rparr>))))"

text \<open>
  \<open>ImageValidator.validate_image\<close> with its effects: the outer handler
  \<open>except Exception\<close> logs the exception of the body and turns it into a result. The
  value is what the call returns (\<open>Inl\<close> would be an exception reaching the caller),
  the file object as the call leaves it, and the exceptions written to the log.
\<close>

definition validate_image_run ::
  "'s pil \<Rightarrow> 's uploaded_file option
     \<Rightarrow> (exn + (bool \<times> string option)) \<times> 's uploaded_file option \<times> exn list" where
  "validate_image_run lib file_obj =
     (case validate_image_body lib file_obj of
        (Inl e, file_obj') \<Rightarrow> (Inr (False, Some msg_error), file_obj', [e])
      | (Inr r, file_obj') \<Rightarrow> (Inr r, file_obj', []))"

text \<open>What \<open>ImageValidator.validate_image\<close> returns.\<close>

definition validate_image ::
  "'s pil \<Rightarrow> 's uploaded_file option \<Rightarrow> exn + (bool \<times> string option)" where
  "validate_image lib file_obj = fst (validate_image_run lib file_obj)"

text \<open>
  A stand-in library, to run the definitions on: the stream is the decoded size, if
  any, and has no cursor.
\<close>

definition toy_pil :: "(int \<times> int) option pil" where
  "toy_pil =
     \<lparr>Image_open = (\<lambda>s. case s of
                        None \<Rightarrow> (Inl (LibraryError ''UnidentifiedImageError''), s)
                      | Some (w, h) \<Rightarrow> (Inr \<lparr>width = w, height = h\<rparr>, s)),
      verify = (\<lambda>img s. (None, s)),
      seek0 = (\<lambda>s. (None, s))\<rparr>"

text \<open>
  A stand-in library with a cursor: a stream has a length, a cursor and the size it
  decodes to, if any. Opening reads a header of up to 16 bytes from the cursor and
  succeeds on a decodable stream read from its start; verifying reads to the end;
  \<open>seek(0)\<close> rewinds.
\<close>

record byte_stream =
  decodes_to :: "(int \<times> int) option"
  length_bytes :: nat
  cursor :: nat

definition cursor_pil :: "byte_stream pil" where
  "cursor_pil =
     \<lparr>Image_open = (\<lambda>s. (case decodes_to s of
                          None \<Rightarrow> Inl (LibraryError ''UnidentifiedImageError'')
                        | Some (w, h) \<Rightarrow>
                            if cursor s = 0 then Inr \<lparr>width = w, height = h\<rparr>
                            else Inl (LibraryError ''UnidentifiedImageError''),
                        s\<lparr>cursor := min (cursor s + 16) (length_bytes s)\<rparr>)),
      verify = (\<lambda>img s. (None, s\<lparr>cursor := length_bytes s\<rparr>)),
      seek0 = (\<lambda>s. (None, s\<lparr>cursor := 0\<rparr>))\<rparr>"

definition xray_file :: "byte_stream uploaded_file" where
  "xray_file = \<lparr>name = ''xray.jpg'', size_bytes = 2000000,
                stream = \<lparr>decodes_to = Some (500, 500), length_bytes = 2000000, cursor = 0\<rparr>\<rparr>"

definition broken_file :: "byte_stream uploaded_file" where
  "broken_file = \<lparr>name = ''xray.jpg'', size_bytes = 2000000,
                  stream = \<lparr>decodes_to = None, length_bytes = 2000000, cursor = 0\<rparr>\<rparr>"

section \<open>Annotation\<close>

text \<open>
  The drawing library is not part of the repository: its calls are parameters over an
  abstract image type \<open>'img\<close>. Each call returns the image it wrote to, or raises and
  leaves it as it was. The source draws in place: \<open>addWeighted\<close>, \<open>polylines\<close> and
  \<open>putText\<close> write to \<open>img_cv2\<close> itself, \<open>fillPoly\<close> to the copy.
\<close>

type_synonym color = "nat \<times> nat \<times> nat"

record 'img cv2 =
  img_copy :: "'img \<Rightarrow> exn + 'img"
  fillPoly :: "'img \<Rightarrow> (int \<times> int) list \<Rightarrow> color \<Rightarrow> exn + 'img"
  addWeighted :: "'img \<Rightarrow> rat \<Rightarrow> 'img \<Rightarrow> rat \<Rightarrow> exn + 'img"
  polylines :: "'img \<Rightarrow> (int \<times> int) list \<Rightarrow> color \<Rightarrow> exn + 'img"
  putText :: "'img \<Rightarrow> string \<Rightarrow> int \<times> int \<Rightarrow> color \<Rightarrow> exn + 'img"

text \<open>\<open>[[p['x'], p['y']] for p in pred['points']]\<close>: a missing key raises \<open>KeyError\<close>.\<close>

fun np_points :: "raw_point list \<Rightarrow> exn + (int \<times> int) list" where
  "np_points [] = Inr []"
| "np_points ((Some x, Some y) # ps) =
     (case np_points ps of Inl e \<Rightarrow> Inl e | Inr qs \<Rightarrow> Inr ((x, y) # qs))"
| "np_points (_ # ps) = Inl KeyError"

text \<open>\<open>min(points[:, 0])\<close>: indexing the column of an array with no row raises.\<close>

definition column_min :: "int list \<Rightarrow> exn + int" where
  "column_min xs = (case xs of [] \<Rightarrow> Inl IndexError | y # ys \<Rightarrow> Inr (fold min ys y))"

text \<open>
  Decimal digits of a natural number, and \<open>f"{x:.2f}"\<close> for a float: the exact
  value rounded to two decimals, a tie going to the even digit.
\<close>

fun digits :: "nat \<Rightarrow> string" where
  "digits n =
     (if n < 10 then [''0123456789'' ! n]
      else digits (n div 10) @ [''0123456789'' ! (n mod 10)])"

definition format_2f :: "rat \<Rightarrow> string" where
  "format_2f x =
     (let h = round_half_even (x * 100);
          a = nat \<bar>h\<bar>
      in (if x < 0 then ''-'' else []) @ digits (a div 100) @ ''.''
           @ digits (a mod 100 div 10) @ digits (a mod 10))"

text \<open>
  The body of the \<open>try\<close> inside the loop of \<open>draw_predictions_on_image\<close>, for one
  prediction: the image as this prediction leaves it, and the exception that ended the
  body, if one did.
\<close>

definition render_prediction :: "'img cv2 \<Rightarrow> 'img \<Rightarrow> prediction \<Rightarrow> 'img \<times> exn option" where
  "render_prediction cv img_cv2 pred =
     (let conf = float_mul (case confidence pred of None \<Rightarrow> 0 | Some c \<Rightarrow> c) 100;
          class_name = (case pclass pred of None \<Rightarrow> ''Unknown'' | Some c \<Rightarrow> c)
      in case points pred of
           None \<Rightarrow> (img_cv2, None)
         | Some raw \<Rightarrow>
            (case np_points raw of
               Inl e \<Rightarrow> (img_cv2, Some e)
             | Inr pts \<Rightarrow>
            (case img_copy cv img_cv2 of
               Inl e \<Rightarrow> (img_cv2, Some e)
             | Inr overlay \<Rightarrow>
            (case fillPoly cv overlay pts (0, 0, 255) of
               Inl e \<Rightarrow> (img_cv2, Some e)
             | Inr overlay' \<Rightarrow>
            (case addWeighted cv overlay' (4 / 10) img_cv2 (1 - 4 / 10) of
               Inl e \<Rightarrow> (img_cv2, Some e)
             | Inr img1 \<Rightarrow>
            (let color = (if class_name = ''Sin Hernia'' then (0, 255, 0) else (255, 0, 0))
             in case polylines cv img1 pts color of
               Inl e \<Rightarrow> (img1, Some e)
             | Inr img2 \<Rightarrow>
            (case column_min (map fst pts) of
               Inl e \<Rightarrow> (img2, Some e)
             | Inr x_min \<Rightarrow>
            (case column_min (map snd pts) of
               Inl e \<Rightarrow> (img2, Some e)
             | Inr y_min \<Rightarrow>
            (let label = class_name @ '' '' @ format_2f conf @ ''%''
             in case putText cv img2 label (x_min, y_min - 10) color of
               Inl e \<Rightarrow> (img2, Some e)
             | Inr img3 \<Rightarrow> (img3, None))))))))))"

text \<open>
  \<open>ImageProcessingService.draw_predictions_on_image\<close>: the loop; the handler logs the
  exception and continues with the next prediction. \<open>Inl\<close> would be an exception
  reaching the caller.
\<close>

fun draw_predictions_on_image :: "'img cv2 \<Rightarrow> 'img \<Rightarrow> prediction list \<Rightarrow> exn + 'img" where
  "draw_predictions_on_image cv img_cv2 [] = Inr img_cv2"
| "draw_predictions_on_image cv img_cv2 (pred # rest) =
     (case render_prediction cv img_cv2 pred of
        (img', _) \<Rightarrow> draw_predictions_on_image cv img' rest)"

text \<open>
  A stand-in drawing library, to run the definitions on: an image is the list of the
  shapes drawn on it; \<open>putText\<close> raises for a position above the image.
\<close>

datatype shape =
    Fill "(int \<times> int) list" color
  | Blend rat rat
  | Outline "(int \<times> int) list" color
  | Label string "int \<times> int" color

definition toy_cv2 :: "shape list cv2" where
  "toy_cv2 =
     \<lparr>img_copy = (\<lambda>img. Inr img),
      fillPoly = (\<lambda>img pts c. Inr (img @ [Fill pts c])),
      addWeighted = (\<lambda>overlay a img b. Inr (img @ [Blend a b])),
      polylines = (\<lambda>img pts c. Inr (img @ [Outline pts c])),
      putText = (\<lambda>img t pos c.
                   if snd pos < 0 then Inl (LibraryError ''cv2.error'')
                   else Inr (img @ [Label t pos c]))\<rparr>"






section \<open>The data store\<close>

text \<open>
  Modelled from the spec: the models \<open>Historial\<close> and \<open>Imagen\<close> and the file storage
  are declared outside the files at hand. Their fields are the ones the services read
  and write; a row is found by its id; the storage keeps the bytes of a file under its
  name and overwrites what was there ("stores/overwrites image bytes under a
  content-derived key").

  A \<open>datetime\<close> is an instant with a time zone; \<open>astimezone\<close> keeps the instant.
\<close>

record datetime =
  instant :: int
  tzname :: string

definition ECUADOR_TZ :: string where
  "ECUADOR_TZ = ''America/Guayaquil''"

definition astimezone :: "datetime \<Rightarrow> string \<Rightarrow> datetime" where
  "astimezone d tz = d\<lparr>tzname := tz\<rparr>"

record historial_row =
  h_user :: nat
  h_imagen :: string
  h_porcentaje :: rat
  h_grupo :: string
  h_paciente_nombre :: string
  h_fecha_imagen :: datetime

record imagen_row =
  i_imagen :: string
  i_paciente_nombre :: string
  i_fecha :: "datetime option"

text \<open>The calls made on the database and on the storage, in the order they were made.\<close>

datatype event =
    BlobWritten string
  | BlobDeleted string
  | ImagenSaved nat
  | HistorialSaved nat
  | HistorialDeleted nat

record store =
  historiales :: "nat \<rightharpoonup> historial_row"
  imagenes :: "nat \<rightharpoonup> imagen_row"
  blobs :: "string \<rightharpoonup> string"
  next_historial_id :: nat
  next_imagen_id :: nat
  events :: "event list"

text \<open>
  What the database and the storage may do in one call of a service: each operation may
  raise; \<open>full_clean\<close> accepts a row or raises \<open>ValidationError\<close>.
\<close>

record db_env =
  get_error :: "exn option"
  storage_delete_error :: "exn option"
  row_delete_error :: "exn option"
  full_clean_ok :: "historial_row \<Rightarrow> bool"
  save_error :: "exn option"

text \<open>
  \<open>transaction.atomic\<close>: when the body raises, the tables are as they were before it
  and the exception goes on; the storage is not part of the transaction. A body that
  returns commits.
\<close>

definition atomic :: "(store \<Rightarrow> (exn + 'a) \<times> store) \<Rightarrow> store \<Rightarrow> (exn + 'a) \<times> store" where
  "atomic body s =
     (case body s of
        (Inl e, s') \<Rightarrow> (Inl e, s'\<lparr>historiales := historiales s, imagenes := imagenes s\<rparr>)
      | (Inr v, s') \<Rightarrow> (Inr v, s'))"

section \<open>The history service\<close>

text \<open>
  \<open>Historial.objects.get(id=historial_id, user=user)\<close> when \<open>user\<close> is given (and
  truthy), \<open>Historial.objects.get(id=historial_id)\<close> otherwise.
\<close>

definition historial_get ::
  "db_env \<Rightarrow> store \<Rightarrow> nat \<Rightarrow> nat option \<Rightarrow> exn + historial_row" where
  "historial_get env s historial_id user =
     (case get_error env of
        Some e \<Rightarrow> Inl e
      | None \<Rightarrow>
          (case historiales s historial_id of
             None \<Rightarrow> Inl DoesNotExist
           | Some h \<Rightarrow>
               (case user of
                  None \<Rightarrow> Inr h
                | Some u \<Rightarrow> if h_user h = u then Inr h else Inl DoesNotExist)))"

text \<open>
  \<open>historial.imagen.delete()\<close>: removes the file from the storage and saves the row
  with an empty file name.
\<close>

definition imagen_delete :: "db_env \<Rightarrow> nat \<Rightarrow> historial_row \<Rightarrow> store \<Rightarrow> exn + store" where
  "imagen_delete env historial_id h s =
     (case storage_delete_error env of
        Some e \<Rightarrow> Inl e
      | None \<Rightarrow>
          Inr (s\<lparr>blobs := (blobs s)(h_imagen h := None),
                 historiales := (historiales s)(historial_id \<mapsto> h\<lparr>h_imagen := []\<rparr>),
                 events := events s @ [BlobDeleted (h_imagen h)]\<rparr>))"

text \<open>\<open>historial.delete()\<close>\<close>

definition row_delete :: "db_env \<Rightarrow> nat \<Rightarrow> store \<Rightarrow> exn + store" where
  "row_delete env historial_id s =
     (case row_delete_error env of
        Some e \<Rightarrow> Inl e
      | None \<Rightarrow>
          Inr (s\<lparr>historiales := (historiales s)(historial_id := None),
                 events := events s @ [HistorialDeleted historial_id]\<rparr>))"

text \<open>The body of the \<open>try\<close> of \<open>HistorialService.delete_historial\<close>.\<close>

definition delete_historial_try ::
  "db_env \<Rightarrow> nat \<Rightarrow> nat option \<Rightarrow> store \<Rightarrow> (exn + bool) \<times> store" where
  "delete_historial_try env historial_id user s =
     (case historial_get env s historial_id user of
        Inl e \<Rightarrow> (Inl e, s)
      | Inr historial \<Rightarrow>
          (case (if h_imagen historial \<noteq> [] then imagen_delete env historial_id historial s
                 else Inr s) of
             Inl e \<Rightarrow> (Inl e, s)
           | Inr s1 \<Rightarrow>
               (case row_delete env historial_id s1 of
                  Inl e \<Rightarrow> (Inl e, s1)
                | Inr s2 \<Rightarrow> (Inr True, s2))))"

text \<open>
  \<open>HistorialService.delete_historial\<close>: \<open>Historial.DoesNotExist\<close> is caught and gives
  \<open>False\<close>; any other exception is logged and raised again, through the transaction.
\<close>

definition delete_historial ::
  "db_env \<Rightarrow> nat \<Rightarrow> nat option \<Rightarrow> store \<Rightarrow> (exn + bool) \<times> store" where
  "delete_historial env historial_id user =
     atomic (\<lambda>s. case delete_historial_try env historial_id user s of
                    (Inl e, s') \<Rightarrow> if e = DoesNotExist then (Inr False, s') else (Inl e, s')
                  | (Inr b, s') \<Rightarrow> (Inr b, s'))"

text \<open>The body of the \<open>try\<close> of \<open>HistorialService.create_historial_from_image\<close>.\<close>

definition create_historial_try ::
  "db_env \<Rightarrow> nat \<Rightarrow> imagen_row \<Rightarrow> string \<Rightarrow> string \<Rightarrow> rat \<Rightarrow> store
     \<Rightarrow> (exn + nat \<times> historial_row) \<times> store" where
  "create_historial_try env user imagen_obj paciente_nombre grupo porcentaje s =
     (case i_fecha imagen_obj of
        None \<Rightarrow> (Inl AttributeError, s)
      | Some fecha \<Rightarrow>
          (let fecha_local = astimezone fecha ECUADOR_TZ;
               historial = \<lparr>h_user = user, h_imagen = i_imagen imagen_obj,
                            h_porcentaje = porcentaje, h_grupo = grupo,
                            h_paciente_nombre = paciente_nombre,
                            h_fecha_imagen = fecha_local\<rparr>
           in if \<not> full_clean_ok env historial then (Inl ValidationError, s)
              else (case save_error env of
                      Some e \<Rightarrow> (Inl e, s)
                    | None \<Rightarrow>
                        (Inr (next_historial_id s, historial),
                         s\<lparr>historiales := (historiales s)(next_historial_id s \<mapsto> historial),
                           next_historial_id := Suc (next_historial_id s),
                           events := events s @ [HistorialSaved (next_historial_id s)]\<rparr>))))"

text \<open>
  \<open>HistorialService.create_historial_from_image\<close>: the handler logs and raises again,
  through the transaction.
\<close>

definition create_historial_from_image ::
  "db_env \<Rightarrow> nat \<Rightarrow> imagen_row \<Rightarrow> string \<Rightarrow> string \<Rightarrow> rat \<Rightarrow> store
     \<Rightarrow> (exn + nat \<times> historial_row) \<times> store" where
  "create_historial_from_image env user imagen_obj paciente_nombre grupo porcentaje =
     atomic (create_historial_try env user imagen_obj paciente_nombre grupo porcentaje)"

text \<open>Stores and environments to run the services on.\<close>

definition row7 :: historial_row where
  "row7 = \<lparr>h_user = 1, h_imagen = ''abc.jpg'', h_porcentaje = 87, h_grupo = ''Hernia'',
           h_paciente_nombre = ''Juan'', h_fecha_imagen = \<lparr>instant = 0, tzname = ECUADOR_TZ\<rparr>\<rparr>"

definition store7 :: store where
  "store7 = \<lparr>historiales = [7 \<mapsto> row7], imagenes = Map.empty,
             blobs = [''abc.jpg'' \<mapsto> ''bytes''],
             next_historial_id = 8, next_imagen_id = 1, events = []\<rparr>"

definition calm_db :: db_env where
  "calm_db = \<lparr>get_error = None, storage_delete_error = None, row_delete_error = None,
              full_clean_ok = (\<lambda>h. 0 \<le> h_porcentaje h \<and> h_porcentaje h \<le> 100),
              save_error = None\<rparr>"

definition imagen1 :: imagen_row where
  "imagen1 = \<lparr>i_imagen = ''abc.jpg'', i_paciente_nombre = ''Juan'',
              i_fecha = Some \<lparr>instant = 0, tzname = ''UTC''\<rparr>\<rparr>"

section \<open>Authentication\<close>

text \<open>
  Modelled from the spec: the user table and \<open>authenticate\<close> belong to the identity
  provider ("authenticates by email+password"). A user has a unique name; \<open>authenticate\<close>
  finds the user by name and returns it when the password matches and the user is
  active; \<open>check_password\<close> compares a password with the stored one.
\<close>

record user =
  username :: string
  email :: string
  password :: string
  is_active :: bool

definition LOGIN_ERROR :: string where
  "LOGIN_ERROR = ''Correo electr'' @ [char_of (195::nat), char_of (179::nat)]
                   @ ''nico o contrase'' @ [char_of (195::nat), char_of (177::nat)]
                   @ ''a incorrectos.''"

definition AUTH_ERROR :: string where
  "AUTH_ERROR = ''Error al procesar la autenticaci'' @ [char_of (195::nat), char_of (179::nat)]
                  @ ''n.''"

text \<open>\<open>User.objects.get(email=email)\<close>\<close>

definition user_get_by_email :: "user list \<Rightarrow> string \<Rightarrow> exn + user" where
  "user_get_by_email users e =
     (case filter (\<lambda>u. email u = e) users of
        [] \<Rightarrow> Inl DoesNotExist
      | [u] \<Rightarrow> Inr u
      | _ \<Rightarrow> Inl MultipleObjectsReturned)"

definition authenticate ::
  "(string \<Rightarrow> string \<Rightarrow> bool) \<Rightarrow> user list \<Rightarrow> string \<Rightarrow> string \<Rightarrow> user option" where
  "authenticate check_password users uname pw =
     (case find (\<lambda>u. username u = uname) users of
        None \<Rightarrow> None
      | Some u \<Rightarrow> if check_password pw (password u) \<and> is_active u then Some u else None)"

text \<open>\<open>AuthenticationService.authenticate_by_email\<close>\<close>

definition authenticate_by_email ::
  "(string \<Rightarrow> string \<Rightarrow> bool) \<Rightarrow> user list \<Rightarrow> string \<Rightarrow> string
     \<Rightarrow> user option \<times> string option" where
  "authenticate_by_email check_password users e pw =
     (case user_get_by_email users e of
        Inl ex \<Rightarrow>
          if ex = DoesNotExist then (None, Some LOGIN_ERROR)
          else (None, Some AUTH_ERROR)
      | Inr u \<Rightarrow>
          (case authenticate check_password users (username u) pw of
             Some authenticated_user \<Rightarrow> (Some authenticated_user, None)
           | None \<Rightarrow> (None, Some LOGIN_ERROR)))"

definition ana :: user where
  "ana = \<lparr>username = ''ana'', email = ''ana@example.org'', password = ''secret'',
          is_active = True\<rparr>"

definition ana2 :: user where
  "ana2 = \<lparr>username = ''ana2'', email = ''ana@example.org'', password = ''other'',
           is_active = True\<rparr>"

section \<open>The upload view\<close>

text \<open>
  What lies outside the repository in one run of \<open>subir_imagen\<close>, as parameters: the
  libraries, the digest, the bytes of the uploaded stream, the database and storage
  calls that may raise, the download of the stored image (\<open>download_image\<close> catches
  every exception and returns \<open>None\<close>), the conversion to an array, the API key of the
  settings and the call of the inference service.
\<close>

record ('s, 'img) upload_env =
  u_pil :: "'s pil"
  u_cv :: "'img cv2"
  u_db :: db_env
  u_sha256 :: "string \<Rightarrow> string"
  read_bytes :: "'s \<Rightarrow> string"
  now :: datetime
  imagen_save_error :: "exn option"
  storage_url :: "string \<Rightarrow> string"
  download_image :: "string \<Rightarrow> 'img option"
  to_cv2 :: "'img \<Rightarrow> exn + 'img"
  ROBOFLOW_API_KEY :: "string option"
  client_infer :: "string \<Rightarrow> string \<Rightarrow> exn + inference_result"
  save_processed_image :: "'img \<Rightarrow> exn + string"
  field_save_error :: "exn option"

text \<open>\<open>get_inference_client\<close>: raises \<open>ValueError\<close> when the key is missing or empty.\<close>

definition get_inference_client :: "('s, 'img) upload_env \<Rightarrow> exn + string" where
  "get_inference_client env =
     (case ROBOFLOW_API_KEY env of
        None \<Rightarrow> Inl ValueError
      | Some api_key \<Rightarrow> if api_key = [] then Inl ValueError else Inr api_key)"

text \<open>
  \<open>ImageProcessingService.get_inference_result\<close>: every exception is caught, logged and
  turned into \<open>None\<close>.
\<close>

definition get_inference_result :: "('s, 'img) upload_env \<Rightarrow> string \<Rightarrow> inference_result option" where
  "get_inference_result env image_url =
     (case get_inference_client env of
        Inl e \<Rightarrow> None
      | Inr client \<Rightarrow>
          (case client_infer env client image_url of
             Inl e \<Rightarrow> None
           | Inr result \<Rightarrow> Some result))"

record 's request =
  is_post :: bool
  form_is_valid :: bool
  form_errors :: "string list"
  files_imagen :: "'s uploaded_file option"
  form_paciente_nombre :: string
  request_user :: nat

text \<open>The page rendered, with the messages added to the request.\<close>

datatype response =
    Subir_imagen "string list"
  | Resultados string rat string string

definition msg_download :: string where
  "msg_download = ''Error al procesar la imagen.''"

definition msg_inference :: string where
  "msg_inference = ''Error al procesar la imagen con el modelo.''"

definition msg_retry :: string where
  "msg_retry = ''Error al procesar la imagen. Intenta nuevamente.''"

text \<open>
  \<open>imagen_obj.save()\<close>: writes the uploaded bytes under the name and inserts the row.
\<close>

definition imagen_obj_save ::
  "('s, 'img) upload_env \<Rightarrow> imagen_row \<Rightarrow> string \<Rightarrow> store \<Rightarrow> exn + nat \<times> store" where
  "imagen_obj_save env imagen_obj content s =
     (case imagen_save_error env of
        Some e \<Rightarrow> Inl e
      | None \<Rightarrow>
          Inr (next_imagen_id s,
               s\<lparr>blobs := (blobs s)(i_imagen imagen_obj \<mapsto> content),
                 imagenes := (imagenes s)(next_imagen_id s \<mapsto> imagen_obj),
                 next_imagen_id := Suc (next_imagen_id s),
                 events := events s
                   @ [BlobWritten (i_imagen imagen_obj), ImagenSaved (next_imagen_id s)]\<rparr>))"

text \<open>
  \<open>imagen_obj.imagen.save(encrypted_name, buffer)\<close>: writes the bytes of the buffer
  under the name and saves the row.
\<close>

definition imagen_field_save ::
  "('s, 'img) upload_env \<Rightarrow> nat \<Rightarrow> imagen_row \<Rightarrow> string \<Rightarrow> string \<Rightarrow> store \<Rightarrow> exn + store" where
  "imagen_field_save env imagen_id imagen_obj file_name buffer s =
     (case field_save_error env of
        Some e \<Rightarrow> Inl e
      | None \<Rightarrow>
          Inr (s\<lparr>blobs := (blobs s)(file_name \<mapsto> buffer),
                 imagenes := (imagenes s)(imagen_id \<mapsto> imagen_obj\<lparr>i_imagen := file_name\<rparr>),
                 events := events s @ [BlobWritten file_name, ImagenSaved imagen_id]\<rparr>))"

text \<open>
  The part of the \<open>with transaction.atomic()\<close> block of \<open>subir_imagen\<close> after a result
  of the inference: draw, store the annotated image, extract, create the history row.
\<close>

definition after_inference ::
  "('s, 'img) upload_env \<Rightarrow> 's request \<Rightarrow> nat \<Rightarrow> imagen_row \<Rightarrow> string \<Rightarrow> 'img
     \<Rightarrow> inference_result \<Rightarrow> store \<Rightarrow> (exn + response) \<times> store" where
  "after_inference env req imagen_id imagen_obj image_url img_cv2 result s =
     (let preds = (case predictions result of None \<Rightarrow> [] | Some ps \<Rightarrow> ps)
      in case draw_predictions_on_image (u_cv env) img_cv2 preds of
           Inl e \<Rightarrow> (Inl e, s)
         | Inr img_drawn \<Rightarrow>
        (case save_processed_image env img_drawn of
           Inl e \<Rightarrow> (Inl e, s)
         | Inr buffer \<Rightarrow>
        (case imagen_field_save env imagen_id imagen_obj (i_imagen imagen_obj) buffer s of
           Inl e \<Rightarrow> (Inl e, s)
         | Inr s1 \<Rightarrow>
        (case extract_prediction_data result of
           (grupo, porcentaje) \<Rightarrow>
        (case create_historial_from_image (u_db env) (request_user req) imagen_obj
                (form_paciente_nombre req) grupo porcentaje s1 of
           (Inl e, s2) \<Rightarrow> (Inl e, s2)
         | (Inr historial, s2) \<Rightarrow>
             (Inr (Resultados grupo porcentaje image_url (storage_url env (i_imagen imagen_obj))),
              s2))))))"

text \<open>
  The \<open>with transaction.atomic()\<close> block of \<open>subir_imagen\<close>. A \<open>return\<close> inside the
  block leaves it without an exception.
\<close>

definition upload_block ::
  "('s, 'img) upload_env \<Rightarrow> 's request \<Rightarrow> store \<Rightarrow> (exn + response) \<times> store" where
  "upload_block env req s =
     (case files_imagen req of
        None \<Rightarrow> (Inl AttributeError, s)
      | Some imagen_file \<Rightarrow>
     (let paciente_nombre = form_paciente_nombre req;
          encrypted_name = generate_encrypted_filename (u_sha256 env) (name imagen_file);
          imagen_obj = \<lparr>i_imagen = encrypted_name, i_paciente_nombre = paciente_nombre,
                        i_fecha = Some (now env)\<rparr>
      in case imagen_obj_save env imagen_obj (read_bytes env (stream imagen_file)) s of
           Inl e \<Rightarrow> (Inl e, s)
         | Inr (imagen_id, s1) \<Rightarrow>
        (let image_url = storage_url env (i_imagen imagen_obj)
         in case download_image env image_url of
              None \<Rightarrow> (Inr (Subir_imagen [msg_download]), s1)
            | Some image_pil \<Rightarrow>
           (case to_cv2 env image_pil of
              Inl e \<Rightarrow> (Inl e, s1)
            | Inr img_cv2 \<Rightarrow>
           (case get_inference_result env image_url of
              None \<Rightarrow> (Inr (Subir_imagen [msg_inference]), s1)
            | Some result \<Rightarrow>
                after_inference env req imagen_id imagen_obj image_url img_cv2 result s1)))))"

text \<open>
  \<open>subir_imagen\<close>. An exception of the block is caught by the view, after the
  transaction has rolled back. \<open>Inl\<close> would be an exception leaving the view.
\<close>

definition subir_imagen ::
  "('s, 'img) upload_env \<Rightarrow> 's request \<Rightarrow> store \<Rightarrow> (exn + response) \<times> store" where
  "subir_imagen env req s =
     (if \<not> is_post req then (Inr (Subir_imagen []), s)
      else if \<not> form_is_valid req then (Inr (Subir_imagen (form_errors req)), s)
      else (case validate_image (u_pil env) (files_imagen req) of
              Inl e \<Rightarrow> (Inl e, s)
            | Inr (is_valid, error_msg) \<Rightarrow>
                if \<not> is_valid
                then (Inr (Subir_imagen (case error_msg of None \<Rightarrow> [] | Some m \<Rightarrow> [m])), s)
                else (case atomic (upload_block env req) s of
                        (Inl e, s') \<Rightarrow> (Inr (Subir_imagen [msg_retry]), s')
                      | (Inr r, s') \<Rightarrow> (Inr r, s'))))"

text \<open>The history rows that name a file.\<close>

definition linked_rows :: "store \<Rightarrow> string \<Rightarrow> nat set" where
  "linked_rows s file_name =
     {hid. case historiales s hid of None \<Rightarrow> False | Some h \<Rightarrow> h_imagen h = file_name}"

text \<open>An environment and a request to run the view on; the inference service is down.\<close>

definition toy_env :: "((int \<times> int) option, shape list) upload_env" where
  "toy_env =
     \<lparr>u_pil = toy_pil, u_cv = toy_cv2, u_db = calm_db, u_sha256 = toy_digest,
      read_bytes = (\<lambda>s. ''raw''), now = \<lparr>instant = 0, tzname = ''UTC''\<rparr>,
      imagen_save_error = None, storage_url = (\<lambda>n. ''/media/'' @ n),
      download_image = (\<lambda>u. Some []), to_cv2 = (\<lambda>i. Inr i),
      ROBOFLOW_API_KEY = Some ''key'',
      client_infer = (\<lambda>k u. Inl (LibraryError ''ConnectionError'')),
      save_processed_image = (\<lambda>i. Inr ''jpeg''), field_save_error = None\<rparr>"

definition toy_request :: "(int \<times> int) option request" where
  "toy_request =
     \<lparr>is_post = True, form_is_valid = True, form_errors = [],
      files_imagen = Some \<lparr>name = ''xray.jpg'', size_bytes = 2000000, stream = Some (500, 500)\<rparr>,
      form_paciente_nombre = ''Juan'', request_user = 1\<rparr>"

text \<open>
  The SHA-256 hex digest of the name \<open>xray.jpg\<close>, as \<open>hashlib\<close> gives it; on any other
  name the stand-in digest.
\<close>

definition sha256_of_xray :: "string \<Rightarrow> string" where
  "sha256_of_xray s =
     (if s = ''xray.jpg''
      then ''58430b0fbd1a02b254277045eaa374e3a44f4bdd0c79b32f09d44b8cec65b63e''
      else toy_digest s)"

definition xray_key :: string where
  "xray_key = ''58430b0fbd1a02b254277045eaa374e3a44f4bdd0c79b32f09d44b8cec65b63e.jpg''"

text \<open>
  A store after an earlier, successful upload of a file named \<open>xray.jpg\<close>: the history
  row 7 names the stored file, which holds the annotated image.
\<close>

definition store_seen :: store where
  "store_seen = \<lparr>historiales = [7 \<mapsto> row7\<lparr>h_imagen := xray_key\<rparr>],
                 imagenes = [1 \<mapsto> \<lparr>i_imagen = xray_key, i_paciente_nombre = ''Juan'',
                                    i_fecha = Some \<lparr>instant = 0, tzname = ''UTC''\<rparr>\<rparr>],
                 blobs = [xray_key \<mapsto> ''annotated''],
                 next_historial_id = 8, next_imagen_id = 2, events = []\<rparr>"

definition xray_env :: "((int \<times> int) option, shape list) upload_env" where
  "xray_env = toy_env\<lparr>u_sha256 := sha256_of_xray\<rparr>"

section \<open>Properties\<close>

subsection \<open>The extension check\<close>

lemma split_str_nonempty: "split_str c s \<noteq> []"
  by (induction s) (auto split: list.splits)

lemma rsplit1_no_sep: "c \<notin> set s \<Longrightarrow> rsplit1 c s = [s]"
  by (simp add: rsplit1_def)

text \<open>
  C10: for a file name with no dot, the extension check compares the whole lowercased
  name with the allowed extensions: the name passes exactly when its lowercase form is
  one of jpg, jpeg, png, gif, bmp.
\<close>

theorem validate_file_extension_dotless:
  assumes "CHR ''.'' \<notin> set filename"
  shows "validate_file_extension filename =
           (py_lower filename \<in> {''jpg'', ''jpeg'', ''png'', ''gif'', ''bmp''})"
  using assms by (simp add: validate_file_extension_def rsplit1_no_sep ALLOWED_EXTENSIONS_def Let_def)

lemma lower_JpEg: "py_lower ''JpEg'' = ''jpeg''"
  by code_simp

lemma lower_README: "py_lower ''README'' = ''readme''"
  by code_simp

theorem validate_file_extension_dotless_witness:
  "validate_file_extension ''JpEg'' \<and> \<not> validate_file_extension ''README''"
  using validate_file_extension_dotless [of "''JpEg''"]
    validate_file_extension_dotless [of "''README''"]
  by (simp add: lower_JpEg lower_README)

subsection \<open>Prediction extraction\<close>

lemma floor_rat_numeral:
  "\<lfloor>(numeral a :: rat) / numeral b\<rfloor> = numeral a div numeral b"
  by (metis floor_divide_of_int_eq of_int_numeral)

lemma ceiling_rat_numeral:
  "\<lceil>(numeral a :: rat) / numeral b\<rceil> = - (- numeral a div numeral b)"
  by (metis ceiling_def floor_divide_of_int_eq minus_divide_left of_int_minus of_int_numeral)

lemmas float_eval = to_binary64_def floor_log2_def pow2_def round_half_even_def Let_def
  floor_rat_numeral ceiling_rat_numeral

lemma round_half_even_near: "\<bar>of_int (round_half_even y) - y\<bar> \<le> 1 / 2"
proof -
  have "of_int \<lfloor>y\<rfloor> \<le> y" "y < of_int \<lfloor>y\<rfloor> + 1"
    by linarith+
  then show ?thesis
    by (auto simp: round_half_even_def Let_def abs_le_iff)
qed

lemma two_decimals_near:
  "\<bar>of_int (round_half_even (x * 100)) / 100 - x\<bar> \<le> 1 / 200"
proof -
  have "\<bar>of_int (round_half_even (x * 100)) - x * 100\<bar> \<le> 1 / 2"
    by (rule round_half_even_near)
  then show ?thesis
    by (simp add: abs_le_iff field_simps)
qed

text \<open>
  C1: extraction follows the first-match policy. With no predictions (the key absent or
  the list empty) the result is the sentinel label with 0; otherwise only the first
  element counts: class \<open>Sin Hernia\<close> gives the negative label and any other class
  (or none) gives \<open>Hernia\<close>; the percentage is the float product of the first
  confidence and 100 rounded to two decimals, that is, the float nearest to a decimal
  number \<open>k / 100\<close> that lies within \<open>1 / 200\<close> of the product; and the elements
  after the first do not change the result.
\<close>

theorem extract_first_match:
  "extract_prediction_data \<lparr>predictions = None\<rparr> = (not_found_label, 0)
   \<and> extract_prediction_data \<lparr>predictions = Some []\<rparr> = (not_found_label, 0)
   \<and> fst (extract_prediction_data \<lparr>predictions = Some (p # ps)\<rparr>) =
        (if pclass p = Some ''Sin Hernia'' then ''Sin Hernia'' else ''Hernia'')
   \<and> (\<exists>k. snd (extract_prediction_data \<lparr>predictions = Some (p # ps)\<rparr>)
              = to_binary64 (of_int k / 100)
            \<and> \<bar>of_int k / 100
                 - float_mul (case confidence p of None \<Rightarrow> 0 | Some c \<Rightarrow> c) 100\<bar> \<le> 1 / 200)
   \<and> extract_prediction_data \<lparr>predictions = Some (p # ps)\<rparr> =
       extract_prediction_data \<lparr>predictions = Some (p # qs)\<rparr>"
proof -
  let ?x = "float_mul (case confidence p of None \<Rightarrow> 0 | Some c \<Rightarrow> c) 100"
  have a: "extract_prediction_data \<lparr>predictions = None\<rparr> = (not_found_label, 0)"
    "extract_prediction_data \<lparr>predictions = Some []\<rparr> = (not_found_label, 0)"
    by (simp_all add: extract_prediction_data_def)
  have b: "fst (extract_prediction_data \<lparr>predictions = Some (p # ps)\<rparr>) =
        (if pclass p = Some ''Sin Hernia'' then ''Sin Hernia'' else ''Hernia'')"
    by (simp add: extract_prediction_data_def Let_def split: option.splits)
  have "snd (extract_prediction_data \<lparr>predictions = Some (p # ps)\<rparr>)
          = to_binary64 (of_int (round_half_even (?x * 100)) / 100)"
    by (simp add: extract_prediction_data_def Let_def py_round2_def)
  then have c: "\<exists>k. snd (extract_prediction_data \<lparr>predictions = Some (p # ps)\<rparr>)
              = to_binary64 (of_int k / 100)
            \<and> \<bar>of_int k / 100 - ?x\<bar> \<le> 1 / 200"
    using two_decimals_near [of ?x] by blast
  have d: "extract_prediction_data \<lparr>predictions = Some (p # ps)\<rparr> =
       extract_prediction_data \<lparr>predictions = Some (p # qs)\<rparr>"
    by (simp add: extract_prediction_data_def Let_def)
  from a b c d show ?thesis by blast
qed

text \<open>
  The floats written \<open>0.8\<close>, \<open>0.99\<close>, \<open>0.80035\<close> and \<open>0.00125\<close>. The product of
  \<open>0.80035\<close> and 100 is a float just below 80.035 and rounds to the float \<open>80.03\<close>; the
  product of \<open>0.00125\<close> and 100 is exactly 0.125, a tie, and rounds to the float \<open>0.12\<close>.
\<close>

lemma product_080035:
  "float_mul (7208911923531953 / 9007199254740992) 100 = 2815981220129669 / 35184372088832"
  by (simp add: float_mul_def float_eval)

lemma product_000125:
  "float_mul (5764607523034235 / 4611686018427387904) 100 = 1 / 8"
  by (simp add: float_mul_def float_eval)

lemma product_08: "float_mul (3602879701896397 / 4503599627370496) 100 = 80"
  by (simp add: float_mul_def float_eval)

lemma round_080035:
  "py_round2 (2815981220129669 / 35184372088832) = 2815805298269225 / 35184372088832"
  by (simp add: py_round2_def float_eval)

lemma round_000125: "py_round2 (1 / 8) = 1080863910568919 / 9007199254740992"
  by (simp add: py_round2_def float_eval)

lemma round_80: "py_round2 80 = 80"
  by (simp add: py_round2_def float_eval)

lemma extract_one:
  "extract_prediction_data \<lparr>predictions = Some [\<lparr>pclass = cl, confidence = Some c, points = pt\<rparr>]\<rparr>
     = ((if cl = Some ''Sin Hernia'' then ''Sin Hernia'' else ''Hernia''),
        py_round2 (float_mul c 100))"
  by (simp add: extract_prediction_data_def Let_def split: option.splits)

theorem extract_first_match_witness:
  "extract_prediction_data \<lparr>predictions = Some
      [\<lparr>pclass = Some ''Hernia'', confidence = Some (3602879701896397 / 4503599627370496),
        points = None\<rparr>,
       \<lparr>pclass = Some ''Sin Hernia'', confidence = Some (4458563631096791 / 4503599627370496),
        points = None\<rparr>]\<rparr>
     = (''Hernia'', 80)
   \<and> extract_prediction_data \<lparr>predictions = Some
      [\<lparr>pclass = Some ''Sin Hernia'', confidence = Some (7208911923531953 / 9007199254740992),
        points = None\<rparr>,
       \<lparr>pclass = Some ''Hernia'', confidence = Some (4458563631096791 / 4503599627370496),
        points = None\<rparr>]\<rparr>
     = (''Sin Hernia'', 2815805298269225 / 35184372088832)
   \<and> extract_prediction_data \<lparr>predictions = Some
      [\<lparr>pclass = None, confidence = Some (5764607523034235 / 4611686018427387904),
        points = None\<rparr>]\<rparr>
     = (''Hernia'', 1080863910568919 / 9007199254740992)"
proof -
  note t1 = extract_first_match
    [of "\<lparr>pclass = Some ''Hernia'', confidence = Some (3602879701896397 / 4503599627370496),
          points = None\<rparr>"
        "[\<lparr>pclass = Some ''Sin Hernia'', confidence = Some (4458563631096791 / 4503599627370496),
          points = None\<rparr>]" "[]"]
  note t2 = extract_first_match
    [of "\<lparr>pclass = Some ''Sin Hernia'', confidence = Some (7208911923531953 / 9007199254740992),
          points = None\<rparr>"
        "[\<lparr>pclass = Some ''Hernia'', confidence = Some (4458563631096791 / 4503599627370496),
          points = None\<rparr>]" "[]"]
  have a: "extract_prediction_data \<lparr>predictions = Some
      [\<lparr>pclass = Some ''Hernia'', confidence = Some (3602879701896397 / 4503599627370496),
        points = None\<rparr>,
       \<lparr>pclass = Some ''Sin Hernia'', confidence = Some (4458563631096791 / 4503599627370496),
        points = None\<rparr>]\<rparr>
     = (''Hernia'', 80)"
    using t1 by (simp add: extract_one product_08 round_80)
  have b: "extract_prediction_data \<lparr>predictions = Some
      [\<lparr>pclass = Some ''Sin Hernia'', confidence = Some (7208911923531953 / 9007199254740992),
        points = None\<rparr>,
       \<lparr>pclass = Some ''Hernia'', confidence = Some (4458563631096791 / 4503599627370496),
        points = None\<rparr>]\<rparr>
     = (''Sin Hernia'', 2815805298269225 / 35184372088832)"
    using t2 by (simp add: extract_one product_080035 round_080035)
  have c: "extract_prediction_data \<lparr>predictions = Some
      [\<lparr>pclass = None, confidence = Some (5764607523034235 / 4611686018427387904),
        points = None\<rparr>]\<rparr>
     = (''Hernia'', 1080863910568919 / 9007199254740992)"
    by (simp add: extract_one product_000125 round_000125)
  from a b c show ?thesis by simp
qed

subsection \<open>Stored file names\<close>

lemma split_str_no_sep: "c \<notin> set e \<Longrightarrow> split_str c e = [e]"
  by (induction e) auto




lemma split_xray_jpg: "split_str (CHR ''.'') ''xray.jpg'' = [''xray'', ''jpg'']"
  by code_simp



subsection \<open>Image validation\<close>

lemma validate_image_value:
  "validate_image lib file_obj =
     (case fst (validate_image_body lib file_obj) of
        Inl e \<Rightarrow> Inr (False, Some msg_error)
      | Inr r \<Rightarrow> Inr r)"
  by (simp add: validate_image_def validate_image_run_def split: prod.splits sum.splits)

text \<open>
  C3: validation checks extension, size, decodability and dimensions in this order and
  the first failure decides: a file whose lowercased extension is not allowed gets the
  format error whatever its size and content; a file with an allowed extension and a
  size of 0 or above 10 * 1024 * 1024 gets the size error whatever its content; then a
  stream that does not decode gets the invalid-image error, then dimensions out of
  range the dimension error, and only a file passing all four is accepted.
\<close>

theorem validate_image_order:
  "(py_lower (last (rsplit1 (CHR ''.'') (name f))) \<notin> {''jpg'', ''jpeg'', ''png'', ''gif'', ''bmp''}
      \<longrightarrow> validate_image lib (Some f) = Inr (False, Some msg_format))
   \<and> (py_lower (last (rsplit1 (CHR ''.'') (name f))) \<in> {''jpg'', ''jpeg'', ''png'', ''gif'', ''bmp''}
        \<and> (size_bytes f = 0 \<or> size_bytes f > 10 * 1024 * 1024)
      \<longrightarrow> validate_image lib (Some f) = Inr (False, Some msg_size))
   \<and> (validate_file_extension (name f) \<and> validate_file_size (size_bytes f)
        \<and> fst (decode_image lib (stream f)) = Inl e
      \<longrightarrow> validate_image lib (Some f) = Inr (False, Some msg_invalid))
   \<and> (validate_file_extension (name f) \<and> validate_file_size (size_bytes f)
        \<and> fst (decode_image lib (stream f)) = Inr img \<and> \<not> validate_image_dimensions img
      \<longrightarrow> validate_image lib (Some f) = Inr (False, Some msg_dimensions))
   \<and> (validate_file_extension (name f) \<and> validate_file_size (size_bytes f)
        \<and> fst (decode_image lib (stream f)) = Inr img \<and> validate_image_dimensions img
      \<longrightarrow> validate_image lib (Some f) = Inr (True, None))"
  by (cases "decode_image lib (stream f)")
    (simp add: validate_image_value validate_image_body_def validate_file_extension_def
      validate_file_size_def ALLOWED_EXTENSIONS_def MAX_FILE_SIZE_def Let_def)

lemma ext_tiff: "py_lower (last (rsplit1 (CHR ''.'') ''scan.TIFF'')) = ''tiff''"
  by code_simp

lemma ext_JPG: "py_lower (last (rsplit1 (CHR ''.'') ''xray.JPG'')) = ''jpg''"
  by code_simp

theorem validate_image_order_witness:
  "validate_image toy_pil (Some \<lparr>name = ''scan.TIFF'', size_bytes = 0, stream = Some (5, 5)\<rparr>)
     = Inr (False, Some msg_format)
   \<and> validate_image toy_pil (Some \<lparr>name = ''xray.JPG'', size_bytes = 10485761, stream = Some (500, 500)\<rparr>)
     = Inr (False, Some msg_size)
   \<and> validate_image toy_pil (Some \<lparr>name = ''xray.JPG'', size_bytes = 0, stream = None\<rparr>)
     = Inr (False, Some msg_size)"
  using validate_image_order [of "\<lparr>name = ''scan.TIFF'', size_bytes = 0, stream = Some (5, 5)\<rparr>" toy_pil]
    validate_image_order [of "\<lparr>name = ''xray.JPG'', size_bytes = 10485761, stream = Some (500, 500)\<rparr>" toy_pil]
    validate_image_order [of "\<lparr>name = ''xray.JPG'', size_bytes = 0, stream = None\<rparr>" toy_pil]
  by (simp add: ext_tiff ext_JPG)

lemma ext_jpg: "py_lower (last (rsplit1 (CHR ''.'') ''xray.jpg'')) = ''jpg''"
  by code_simp

lemma xray_jpg_ext_ok: "validate_file_extension ''xray.jpg''"
  by (simp add: validate_file_extension_def ext_jpg ALLOWED_EXTENSIONS_def)

lemma decode_xray:
  "decode_image cursor_pil (stream xray_file)
     = (Inr \<lparr>width = 500, height = 500\<rparr>,
        \<lparr>decodes_to = Some (500, 500), length_bytes = 2000000, cursor = 16\<rparr>)"
  by (simp add: decode_image_def cursor_pil_def xray_file_def)

lemma decode_broken:
  "decode_image cursor_pil (stream broken_file)
     = (Inl (LibraryError ''UnidentifiedImageError''),
        \<lparr>decodes_to = None, length_bytes = 2000000, cursor = 16\<rparr>)"
  by (simp add: decode_image_def cursor_pil_def broken_file_def)

text \<open>
  Validation has effects. It accepts \<open>xray_file\<close> and leaves the cursor of its stream
  at 16, not at 0 where it was; it rejects \<open>broken_file\<close>, whose first open raises,
  and leaves the cursor at 16 as well; and for a missing file object it writes the
  exception to the log.
\<close>

theorem validation_effects_counterexample:
  "validate_image_run cursor_pil (Some xray_file)
     = (Inr (True, None),
        Some (xray_file\<lparr>stream := \<lparr>decodes_to = Some (500, 500), length_bytes = 2000000,
                                    cursor = 16\<rparr>\<rparr>), [])
   \<and> fst (snd (validate_image_run cursor_pil (Some xray_file))) \<noteq> Some xray_file
   \<and> fst (snd (validate_image_run cursor_pil (Some broken_file))) \<noteq> Some broken_file
   \<and> snd (snd (validate_image_run cursor_pil None)) = [AttributeError]"
proof -
  have size_ok: "validate_file_size 2000000"
    by (simp add: validate_file_size_def MAX_FILE_SIZE_def)
  have a: "validate_image_run cursor_pil (Some xray_file)
     = (Inr (True, None),
        Some (xray_file\<lparr>stream := \<lparr>decodes_to = Some (500, 500), length_bytes = 2000000,
                                    cursor = 16\<rparr>\<rparr>), [])"
    using decode_xray size_ok xray_jpg_ext_ok
    by (simp add: validate_image_run_def validate_image_body_def xray_file_def
        validate_image_dimensions_def MIN_DIMENSION_def MAX_DIMENSION_def)
  have b: "fst (snd (validate_image_run cursor_pil (Some broken_file))) \<noteq> Some broken_file"
    using decode_broken size_ok xray_jpg_ext_ok
    by (simp add: validate_image_run_def validate_image_body_def broken_file_def)
  have c: "snd (snd (validate_image_run cursor_pil None)) = [AttributeError]"
    by (simp add: validate_image_run_def validate_image_body_def)
  have d: "fst (snd (validate_image_run cursor_pil (Some xray_file))) \<noteq> Some xray_file"
    unfolding a by (simp add: xray_file_def)
  from a b c d show ?thesis by simp
qed

lemma validate_image_returns:
  "\<exists>accepted reason. validate_image lib file_obj = Inr (accepted, reason)"
  by (cases "validate_image_body lib file_obj")
    (auto simp: validate_image_def validate_image_run_def split: sum.splits)

lemma run_rejected_early:
  "\<not> validate_file_extension (name f) \<or> \<not> validate_file_size (size_bytes f)
     \<Longrightarrow> snd (validate_image_run lib (Some f)) = (Some f, [])"
  by (auto simp: validate_image_run_def validate_image_body_def)

lemma run_decoded:
  "validate_file_extension (name f) \<Longrightarrow> validate_file_size (size_bytes f)
     \<Longrightarrow> snd (validate_image_run lib (Some f))
           = (Some (f\<lparr>stream := snd (decode_image lib (stream f))\<rparr>), [])"
  by (cases "decode_image lib (stream f)")
    (auto simp: validate_image_run_def validate_image_body_def split: sum.splits)

text \<open>
  C8, as amended: validation is total: it always returns a pair (accepted, reason) and
  no exception reaches the caller, whatever the file object (also \<open>None\<close>) and whatever
  the imaging library does; an exception raised while decoding the stream gives the
  invalid-image result. It writes no store, and a file rejected for its extension or
  its size is left untouched with nothing logged; but a file that reaches the decode
  has its stream left as the imaging calls leave it (read, the cursor not restored),
  and for a missing file object the handler writes the exception to the log.
\<close>

theorem validate_image_total:
  "(\<exists>accepted reason. validate_image lib file_obj = Inr (accepted, reason))
   \<and> (validate_file_extension (name f) \<and> validate_file_size (size_bytes f)
        \<and> fst (decode_image lib (stream f)) = Inl e
      \<longrightarrow> validate_image lib (Some f) = Inr (False, Some msg_invalid))
   \<and> validate_image lib None = Inr (False, Some msg_error)
   \<and> validate_image_run lib None = (Inr (False, Some msg_error), None, [AttributeError])
   \<and> (\<not> validate_file_extension (name f) \<or> \<not> validate_file_size (size_bytes f)
      \<longrightarrow> snd (validate_image_run lib (Some f)) = (Some f, []))
   \<and> (validate_file_extension (name f) \<and> validate_file_size (size_bytes f)
      \<longrightarrow> snd (validate_image_run lib (Some f))
            = (Some (f\<lparr>stream := snd (decode_image lib (stream f))\<rparr>), []))"
proof -
  have b: "validate_file_extension (name f) \<and> validate_file_size (size_bytes f)
        \<and> fst (decode_image lib (stream f)) = Inl e
      \<longrightarrow> validate_image lib (Some f) = Inr (False, Some msg_invalid)"
    by (cases "decode_image lib (stream f)")
      (simp add: validate_image_value validate_image_body_def)
  have c: "validate_image lib None = Inr (False, Some msg_error)"
    by (simp add: validate_image_value validate_image_body_def)
  have d: "validate_image_run lib None = (Inr (False, Some msg_error), None, [AttributeError])"
    by (simp add: validate_image_run_def validate_image_body_def)
  from validate_image_returns [of lib file_obj] b c d
    run_rejected_early [of f lib] run_decoded [of f lib]
  show ?thesis by blast
qed

lemma toy_decode_none:
  "decode_image toy_pil None = (Inl (LibraryError ''UnidentifiedImageError''), None)"
  by (simp add: decode_image_def toy_pil_def)

lemma xray_ext_ok: "validate_file_extension ''xray.JPG''"
  by (simp add: validate_file_extension_def ext_JPG ALLOWED_EXTENSIONS_def)

theorem validate_image_total_witness:
  "validate_image toy_pil (Some \<lparr>name = ''xray.JPG'', size_bytes = 2000000, stream = None\<rparr>)
     = Inr (False, Some msg_invalid)
   \<and> validate_image toy_pil None = Inr (False, Some msg_error)
   \<and> snd (validate_image_run cursor_pil (Some (xray_file\<lparr>size_bytes := 0\<rparr>)))
       = (Some (xray_file\<lparr>size_bytes := 0\<rparr>), [])
   \<and> snd (validate_image_run cursor_pil (Some xray_file))
       = (Some (xray_file\<lparr>stream := \<lparr>decodes_to = Some (500, 500), length_bytes = 2000000,
                                      cursor = 16\<rparr>\<rparr>), [])"
proof -
  note t1 = validate_image_total [of toy_pil None
      "\<lparr>name = ''xray.JPG'', size_bytes = 2000000, stream = None\<rparr>"
      "LibraryError ''UnidentifiedImageError''"]
  note t2 = validate_image_total [of cursor_pil None "xray_file\<lparr>size_bytes := 0\<rparr>" KeyError]
  note t3 = validate_image_total [of cursor_pil None xray_file KeyError]
  have size_ok: "validate_file_size 2000000" "\<not> validate_file_size 0"
    by (simp_all add: validate_file_size_def MAX_FILE_SIZE_def)
  have x: "name xray_file = ''xray.jpg''" "size_bytes xray_file = 2000000"
    by (simp_all add: xray_file_def)
  have a: "validate_image toy_pil (Some \<lparr>name = ''xray.JPG'', size_bytes = 2000000, stream = None\<rparr>)
     = Inr (False, Some msg_invalid)"
    using t1 xray_ext_ok toy_decode_none size_ok by simp
  have b: "validate_image toy_pil None = Inr (False, Some msg_error)"
    using t1 by simp
  have c: "snd (validate_image_run cursor_pil (Some (xray_file\<lparr>size_bytes := 0\<rparr>)))
       = (Some (xray_file\<lparr>size_bytes := 0\<rparr>), [])"
    using t2 size_ok by simp
  have d: "snd (validate_image_run cursor_pil (Some xray_file))
       = (Some (xray_file\<lparr>stream := \<lparr>decodes_to = Some (500, 500), length_bytes = 2000000,
                                      cursor = 16\<rparr>\<rparr>), [])"
    using t3 size_ok x xray_jpg_ext_ok decode_xray by simp
  from a b c d show ?thesis by simp
qed

subsection \<open>Annotation\<close>















subsection \<open>The history service\<close>

lemma delete_not_found:
  assumes "get_error env = None"
    and "historiales s historial_id = None
         \<or> (\<exists>h. historiales s historial_id = Some h \<and> h_user h \<noteq> u)"
  shows "delete_historial env historial_id (Some u) s = (Inr False, s)"
  using assms
  by (auto simp: delete_historial_def delete_historial_try_def historial_get_def atomic_def)

lemma delete_found:
  assumes "get_error env = None" "storage_delete_error env = None" "row_delete_error env = None"
    and "historiales s historial_id = Some h" "h_user h = u" "h_imagen h \<noteq> []"
  shows "delete_historial env historial_id (Some u) s =
           (Inr True, s\<lparr>blobs := (blobs s)(h_imagen h := None),
                        historiales := (historiales s)(historial_id := None),
                        events := events s @ [BlobDeleted (h_imagen h), HistorialDeleted historial_id]\<rparr>)"
  using assms
  by (simp add: delete_historial_def delete_historial_try_def historial_get_def atomic_def
      imagen_delete_def row_delete_def)

lemma delete_storage_fails:
  assumes "get_error env = None" "storage_delete_error env = Some e" "e \<noteq> DoesNotExist"
    and "historiales s historial_id = Some h" "h_user h = u" "h_imagen h \<noteq> []"
  shows "delete_historial env historial_id (Some u) s = (Inl e, s)"
  using assms
  by (simp add: delete_historial_def delete_historial_try_def historial_get_def atomic_def
      imagen_delete_def row_delete_def)

lemma delete_row_fails:
  assumes "get_error env = None" "storage_delete_error env = None"
    and "row_delete_error env = Some e" "e \<noteq> DoesNotExist"
    and "historiales s historial_id = Some h" "h_user h = u" "h_imagen h \<noteq> []"
  shows "delete_historial env historial_id (Some u) s =
           (Inl e, s\<lparr>blobs := (blobs s)(h_imagen h := None),
                     events := events s @ [BlobDeleted (h_imagen h)]\<rparr>)"
  using assms
  by (simp add: delete_historial_def delete_historial_try_def historial_get_def atomic_def
      imagen_delete_def row_delete_def)

lemma delete_get_fails:
  assumes "get_error env = Some e" "e \<noteq> DoesNotExist"
  shows "delete_historial env historial_id user s = (Inl e, s)"
  using assms
  by (simp add: delete_historial_def delete_historial_try_def historial_get_def atomic_def)

text \<open>
  C2: deletion with an owner looks the row up by id and owner: for an id that no row has
  and for an id whose row belongs to another user it returns \<open>False\<close> and changes
  nothing, raising no permission error; for a matching row with a file, the file is
  deleted from the storage before the row is deleted; and an exception of the lookup,
  of the storage or of the row deletion, other than \<open>DoesNotExist\<close>, reaches the
  caller, the tables rolled back and a file already deleted staying deleted.
\<close>

theorem delete_historial_by_owner:
  "(get_error env = None
      \<and> (historiales s historial_id = None
          \<or> (\<exists>h'. historiales s historial_id = Some h' \<and> h_user h' \<noteq> u))
      \<longrightarrow> delete_historial env historial_id (Some u) s = (Inr False, s))
   \<and> (get_error env = None \<and> storage_delete_error env = None \<and> row_delete_error env = None
        \<and> historiales s historial_id = Some h \<and> h_user h = u \<and> h_imagen h \<noteq> []
      \<longrightarrow> delete_historial env historial_id (Some u) s =
           (Inr True, s\<lparr>blobs := (blobs s)(h_imagen h := None),
                        historiales := (historiales s)(historial_id := None),
                        events := events s
                          @ [BlobDeleted (h_imagen h), HistorialDeleted historial_id]\<rparr>))
   \<and> (get_error env = Some e \<and> e \<noteq> DoesNotExist
      \<longrightarrow> delete_historial env historial_id user s = (Inl e, s))
   \<and> (get_error env = None \<and> storage_delete_error env = Some e \<and> e \<noteq> DoesNotExist
        \<and> historiales s historial_id = Some h \<and> h_user h = u \<and> h_imagen h \<noteq> []
      \<longrightarrow> delete_historial env historial_id (Some u) s = (Inl e, s))
   \<and> (get_error env = None \<and> storage_delete_error env = None
        \<and> row_delete_error env = Some e \<and> e \<noteq> DoesNotExist
        \<and> historiales s historial_id = Some h \<and> h_user h = u \<and> h_imagen h \<noteq> []
      \<longrightarrow> delete_historial env historial_id (Some u) s =
           (Inl e, s\<lparr>blobs := (blobs s)(h_imagen h := None),
                     events := events s @ [BlobDeleted (h_imagen h)]\<rparr>))"
  using delete_not_found [of env s historial_id u]
    delete_found [of env s historial_id h u]
    delete_get_fails [of env e historial_id user s]
    delete_storage_fails [of env e s historial_id h u]
    delete_row_fails [of env e s historial_id h u]
  by blast

lemma create_failure_keeps_store:
  "fst (create_historial_from_image env user imagen_obj pn g p s) = Inl e
     \<Longrightarrow> snd (create_historial_from_image env user imagen_obj pn g p s) = s"
  by (auto simp: create_historial_from_image_def create_historial_try_def atomic_def Let_def
      split: option.splits if_splits)

lemma create_success:
  "create_historial_from_image env user imagen_obj pn g p s = (Inr (hid, h), s')
     \<Longrightarrow> full_clean_ok env h \<and> hid = next_historial_id s
         \<and> historiales s' = (historiales s)(hid \<mapsto> h)
         \<and> events s' = events s @ [HistorialSaved hid]"
  by (auto simp: create_historial_from_image_def create_historial_try_def atomic_def Let_def
      split: option.splits if_splits)

text \<open>
  C4: creation runs in one transaction and validates before it saves: when it raises,
  the store is as it was before the call and the exception reaches the caller; a row
  that fails \<open>full_clean\<close> raises \<open>ValidationError\<close> and is never saved; a failing
  save raises its exception; and a call that returns has saved exactly the row it
  validated, under a fresh id.
\<close>

theorem create_historial_atomic:
  "(fst (create_historial_from_image env user imagen_obj pn g p s) = Inl e
      \<longrightarrow> snd (create_historial_from_image env user imagen_obj pn g p s) = s)
   \<and> (i_fecha imagen_obj = Some fecha
        \<and> \<not> full_clean_ok env \<lparr>h_user = user, h_imagen = i_imagen imagen_obj, h_porcentaje = p,
               h_grupo = g, h_paciente_nombre = pn,
               h_fecha_imagen = astimezone fecha ECUADOR_TZ\<rparr>
      \<longrightarrow> create_historial_from_image env user imagen_obj pn g p s = (Inl ValidationError, s))
   \<and> (i_fecha imagen_obj = Some fecha
        \<and> full_clean_ok env \<lparr>h_user = user, h_imagen = i_imagen imagen_obj, h_porcentaje = p,
               h_grupo = g, h_paciente_nombre = pn,
               h_fecha_imagen = astimezone fecha ECUADOR_TZ\<rparr>
        \<and> save_error env = Some e
      \<longrightarrow> create_historial_from_image env user imagen_obj pn g p s = (Inl e, s))
   \<and> (create_historial_from_image env user imagen_obj pn g p s = (Inr (hid, h), s')
      \<longrightarrow> full_clean_ok env h \<and> hid = next_historial_id s
          \<and> historiales s' = (historiales s)(hid \<mapsto> h)
          \<and> events s' = events s @ [HistorialSaved hid])"
proof -
  have b: "i_fecha imagen_obj = Some fecha
        \<and> \<not> full_clean_ok env \<lparr>h_user = user, h_imagen = i_imagen imagen_obj, h_porcentaje = p,
               h_grupo = g, h_paciente_nombre = pn,
               h_fecha_imagen = astimezone fecha ECUADOR_TZ\<rparr>
      \<longrightarrow> create_historial_from_image env user imagen_obj pn g p s = (Inl ValidationError, s)"
    by (simp add: create_historial_from_image_def create_historial_try_def atomic_def Let_def)
  have c: "i_fecha imagen_obj = Some fecha
        \<and> full_clean_ok env \<lparr>h_user = user, h_imagen = i_imagen imagen_obj, h_porcentaje = p,
               h_grupo = g, h_paciente_nombre = pn,
               h_fecha_imagen = astimezone fecha ECUADOR_TZ\<rparr>
        \<and> save_error env = Some e
      \<longrightarrow> create_historial_from_image env user imagen_obj pn g p s = (Inl e, s)"
    by (simp add: create_historial_from_image_def create_historial_try_def atomic_def Let_def)
  from b c create_failure_keeps_store [of env user imagen_obj pn g p s e]
    create_success [of env user imagen_obj pn g p s hid h s']
  show ?thesis by blast
qed

lemma find_by_username:
  "distinct (map username users) \<Longrightarrow> u \<in> set users
     \<Longrightarrow> find (\<lambda>v. username v = username u) users = Some u"
  by (induction users) (auto simp: image_iff)

lemma filter_single_mem: "filter P xs = [u] \<Longrightarrow> u \<in> set xs"
proof -
  assume "filter P xs = [u]"
  then have "u \<in> set (filter P xs)" by simp
  then show ?thesis by simp
qed

text \<open>
  When two accounts share the email, the lookup raises \<open>MultipleObjectsReturned\<close> and
  the answer is the other message: the result tells this email from one that no
  account has.
\<close>

theorem shared_email_counterexample:
  "authenticate_by_email (=) [ana, ana2] ''ana@example.org'' ''guess'' = (None, Some AUTH_ERROR)
   \<and> authenticate_by_email (=) [] ''ana@example.org'' ''guess'' = (None, Some LOGIN_ERROR)
   \<and> authenticate_by_email (=) [ana, ana2] ''ana@example.org'' ''guess''
       \<noteq> authenticate_by_email (=) [] ''ana@example.org'' ''guess''"
  by (simp add: authenticate_by_email_def user_get_by_email_def ana_def ana2_def
      AUTH_ERROR_def LOGIN_ERROR_def)

text \<open>
  C9, as amended: when no account has the email, and when exactly one account has it
  (user names being unique) and the password is wrong, the result is \<open>None\<close> with the
  same message, so these two causes cannot be told apart from the result; when two or
  more accounts share the email, the result is \<open>None\<close> with the message of a
  processing error, which is a different message.
\<close>

theorem login_failures_indistinguishable:
  "(filter (\<lambda>v. email v = e) users = []
      \<longrightarrow> authenticate_by_email check_password users e pw = (None, Some LOGIN_ERROR))
   \<and> (distinct (map username users) \<and> filter (\<lambda>v. email v = e) users = [u]
        \<and> \<not> check_password pw (password u)
      \<longrightarrow> authenticate_by_email check_password users e pw = (None, Some LOGIN_ERROR))
   \<and> (filter (\<lambda>v. email v = e) users' = []
        \<and> distinct (map username users) \<and> filter (\<lambda>v. email v = e) users = [u]
        \<and> \<not> check_password pw (password u)
      \<longrightarrow> authenticate_by_email check_password users' e pw
            = authenticate_by_email check_password users e pw)
   \<and> (2 \<le> length (filter (\<lambda>v. email v = e) users)
      \<longrightarrow> authenticate_by_email check_password users e pw = (None, Some AUTH_ERROR))
   \<and> AUTH_ERROR \<noteq> LOGIN_ERROR"
proof -
  have a: "authenticate_by_email check_password us e pw = (None, Some LOGIN_ERROR)"
    if "filter (\<lambda>v. email v = e) us = []" for us
    using that by (simp add: authenticate_by_email_def user_get_by_email_def)
  have b: "authenticate_by_email check_password users e pw = (None, Some LOGIN_ERROR)"
    if d: "distinct (map username users)" and f: "filter (\<lambda>v. email v = e) users = [u]"
      and w: "\<not> check_password pw (password u)"
  proof -
    have "u \<in> set users" using f by (rule filter_single_mem)
    then have "find (\<lambda>v. username v = username u) users = Some u"
      using d by (simp add: find_by_username)
    then show ?thesis
      using f w by (simp add: authenticate_by_email_def user_get_by_email_def authenticate_def)
  qed
  have c: "authenticate_by_email check_password users e pw = (None, Some AUTH_ERROR)"
    if "2 \<le> length (filter (\<lambda>v. email v = e) users)"
  proof -
    from that obtain x y zs where "filter (\<lambda>v. email v = e) users = x # y # zs"
      by (cases "filter (\<lambda>v. email v = e) users" rule: list.exhaust)
        (auto simp: Suc_le_eq neq_Nil_conv)
    then show ?thesis
      by (simp add: authenticate_by_email_def user_get_by_email_def)
  qed
  have m: "AUTH_ERROR \<noteq> LOGIN_ERROR"
    by (simp add: AUTH_ERROR_def LOGIN_ERROR_def)
  from a [of users] a [of users'] b c m show ?thesis by simp
qed

theorem delete_historial_by_owner_witness:
  "delete_historial calm_db 7 (Some 2) store7 = (Inr False, store7)
   \<and> delete_historial calm_db 9 (Some 1) store7 = (Inr False, store7)
   \<and> delete_historial calm_db 7 (Some 1) store7
       = (Inr True, store7\<lparr>blobs := (blobs store7)(''abc.jpg'' := None),
                          historiales := (historiales store7)(7 := None),
                          events := [BlobDeleted ''abc.jpg'', HistorialDeleted 7]\<rparr>)
   \<and> delete_historial (calm_db\<lparr>row_delete_error := Some (LibraryError ''IntegrityError'')\<rparr>)
        7 (Some 1) store7
       = (Inl (LibraryError ''IntegrityError''),
          store7\<lparr>blobs := (blobs store7)(''abc.jpg'' := None),
                 events := [BlobDeleted ''abc.jpg'']\<rparr>)"
proof -
  have row: "historiales store7 7 = Some row7" "historiales store7 9 = None"
    "h_user row7 = 1" "h_imagen row7 = ''abc.jpg''" "events store7 = []"
    by (simp_all add: store7_def row7_def)
  have env: "get_error calm_db = None" "storage_delete_error calm_db = None"
    "row_delete_error calm_db = None"
    by (simp_all add: calm_db_def)
  note t1 = delete_historial_by_owner [of calm_db store7 7 2 row7 "LibraryError ''x''" None]
  note t2 = delete_historial_by_owner [of calm_db store7 9 1 row7 "LibraryError ''x''" None]
  note t3 = delete_historial_by_owner [of calm_db store7 7 1 row7 "LibraryError ''x''" None]
  note t4 = delete_historial_by_owner
    [of "calm_db\<lparr>row_delete_error := Some (LibraryError ''IntegrityError'')\<rparr>" store7 7 1 row7
      "LibraryError ''IntegrityError''" None]
  show ?thesis
    using t1 t2 t3 t4 row env by simp
qed

lemma toy_clean_87:
  "full_clean_ok calm_db \<lparr>h_user = 1, h_imagen = i_imagen imagen1, h_porcentaje = 87,
      h_grupo = ''Hernia'', h_paciente_nombre = ''Juan'',
      h_fecha_imagen = astimezone \<lparr>instant = 0, tzname = ''UTC''\<rparr> ECUADOR_TZ\<rparr>"
  by (simp add: calm_db_def)

lemma toy_clean_187:
  "\<not> full_clean_ok calm_db \<lparr>h_user = 1, h_imagen = i_imagen imagen1, h_porcentaje = 187,
      h_grupo = ''Hernia'', h_paciente_nombre = ''Juan'',
      h_fecha_imagen = astimezone \<lparr>instant = 0, tzname = ''UTC''\<rparr> ECUADOR_TZ\<rparr>"
  by (simp add: calm_db_def)

theorem create_historial_atomic_witness:
  "create_historial_from_image calm_db 1 imagen1 ''Juan'' ''Hernia'' 187 store7
     = (Inl ValidationError, store7)
   \<and> create_historial_from_image (calm_db\<lparr>save_error := Some (LibraryError ''OperationalError'')\<rparr>)
        1 imagen1 ''Juan'' ''Hernia'' 87 store7
     = (Inl (LibraryError ''OperationalError''), store7)
   \<and> snd (create_historial_from_image calm_db 1 imagen1 ''Juan'' ''Hernia'' 187 store7) = store7"
proof -
  have f: "i_fecha imagen1 = Some \<lparr>instant = 0, tzname = ''UTC''\<rparr>"
    by (simp add: imagen1_def)
  have c: "full_clean_ok (calm_db\<lparr>save_error := Some (LibraryError ''OperationalError'')\<rparr>)
             = full_clean_ok calm_db"
    by simp
  note t1 = create_historial_atomic [of calm_db 1 imagen1 "''Juan''" "''Hernia''" 187 store7
      ValidationError "\<lparr>instant = 0, tzname = ''UTC''\<rparr>" 0 row7 store7]
  note t2 = create_historial_atomic
    [of "calm_db\<lparr>save_error := Some (LibraryError ''OperationalError'')\<rparr>" 1 imagen1 "''Juan''"
      "''Hernia''" 87 store7 "LibraryError ''OperationalError''"
      "\<lparr>instant = 0, tzname = ''UTC''\<rparr>" 0 row7 store7]
  have a: "create_historial_from_image calm_db 1 imagen1 ''Juan'' ''Hernia'' 187 store7
     = (Inl ValidationError, store7)"
    using t1 f toy_clean_187 by blast
  have b: "create_historial_from_image (calm_db\<lparr>save_error := Some (LibraryError ''OperationalError'')\<rparr>)
        1 imagen1 ''Juan'' ''Hernia'' 87 store7
     = (Inl (LibraryError ''OperationalError''), store7)"
    using t2 f toy_clean_87 unfolding c by simp
  from a b show ?thesis by simp
qed

theorem login_failures_indistinguishable_witness:
  "authenticate_by_email (=) [] ''ana@example.org'' ''guess'' = (None, Some LOGIN_ERROR)
   \<and> authenticate_by_email (=) [ana] ''ana@example.org'' ''guess'' = (None, Some LOGIN_ERROR)
   \<and> authenticate_by_email (=) [] ''ana@example.org'' ''guess''
       = authenticate_by_email (=) [ana] ''ana@example.org'' ''guess''
   \<and> authenticate_by_email (=) [ana, ana2] ''ana@example.org'' ''guess''
       = (None, Some AUTH_ERROR)"
  using login_failures_indistinguishable [of "''ana@example.org''" "[ana]" "(=)" "''guess''" ana "[]"]
    login_failures_indistinguishable
      [of "''ana@example.org''" "[ana, ana2]" "(=)" "''guess''" ana "[]"]
  by (simp add: ana_def ana2_def)

subsection \<open>The upload view\<close>

lemma upload_block_no_inference:
  assumes f: "files_imagen req = Some f"
    and inf: "get_inference_result env
               (storage_url env (generate_encrypted_filename (u_sha256 env) (name f))) = None"
  shows "\<exists>es. (\<forall>hid. HistorialSaved hid \<notin> set es)
           \<and> historiales (snd (upload_block env req s)) = historiales s
           \<and> next_historial_id (snd (upload_block env req s)) = next_historial_id s
           \<and> events (snd (upload_block env req s)) = events s @ es
           \<and> (\<forall>g p u1 u2. fst (upload_block env req s) \<noteq> Inr (Resultados g p u1 u2))"
proof (cases "imagen_save_error env")
  case (Some e)
  then have "upload_block env req s = (Inl e, s)"
    using f by (simp add: upload_block_def imagen_obj_save_def Let_def)
  then show ?thesis by (intro exI [of _ "[]"]) simp
next
  case None
  let ?n = "generate_encrypted_filename (u_sha256 env) (name f)"
  let ?s1 = "s\<lparr>blobs := (blobs s)(?n \<mapsto> read_bytes env (stream f)),
                imagenes := (imagenes s)(next_imagen_id s \<mapsto>
                   \<lparr>i_imagen = ?n, i_paciente_nombre = form_paciente_nombre req,
                    i_fecha = Some (now env)\<rparr>),
                next_imagen_id := Suc (next_imagen_id s),
                events := events s @ [BlobWritten ?n, ImagenSaved (next_imagen_id s)]\<rparr>"
  have "snd (upload_block env req s) = ?s1
        \<and> (\<forall>g p u1 u2. fst (upload_block env req s) \<noteq> Inr (Resultados g p u1 u2))"
    using f inf None
    by (simp add: upload_block_def imagen_obj_save_def Let_def split: option.splits sum.splits)
  then show ?thesis
    by (intro exI [of _ "[BlobWritten ?n, ImagenSaved (next_imagen_id s)]"]) simp
qed

lemma atomic_snd:
  "historiales (snd (atomic body s)) = historiales s \<or> snd (atomic body s) = snd (body s)"
  by (simp add: atomic_def split: prod.splits sum.splits)

lemma atomic_fields:
  "next_historial_id (snd (atomic body s)) = next_historial_id (snd (body s))
   \<and> events (snd (atomic body s)) = events (snd (body s))
   \<and> blobs (snd (atomic body s)) = blobs (snd (body s))"
  by (simp add: atomic_def split: prod.splits sum.splits)

lemma atomic_fst: "fst (atomic body s) = fst (body s)"
  by (simp add: atomic_def split: prod.splits sum.splits)

lemma subir_imagen_shape:
  "(\<exists>r. subir_imagen env req s = (r, s)
        \<and> (\<forall>g p u1 u2. r \<noteq> Inr (Resultados g p u1 u2)))
   \<or> subir_imagen env req s =
        (case atomic (upload_block env req) s of
           (Inl e, s') \<Rightarrow> (Inr (Subir_imagen [msg_retry]), s')
         | (Inr r, s') \<Rightarrow> (Inr r, s'))"
proof (cases "is_post req \<and> form_is_valid req")
  case False
  then show ?thesis by (auto simp: subir_imagen_def)
next
  case True
  show ?thesis
  proof (cases "validate_image (u_pil env) (files_imagen req)")
    case (Inl e)
    then show ?thesis using True by (simp add: subir_imagen_def)
  next
    case (Inr v)
    obtain is_valid error_msg where v: "v = (is_valid, error_msg)" by (cases v)
    show ?thesis
    proof (cases is_valid)
      case True
      then show ?thesis
        using \<open>is_post req \<and> form_is_valid req\<close> Inr v by (simp add: subir_imagen_def)
    next
      case False
      then show ?thesis
        using \<open>is_post req \<and> form_is_valid req\<close> Inr v by (simp add: subir_imagen_def)
    qed
  qed
qed

lemma linked_rows_cong: "historiales s' = historiales s \<Longrightarrow> linked_rows s' k = linked_rows s k"
  by (simp add: linked_rows_def)

text \<open>
  C5, as amended: in a run of the upload view whose inference call returns no result,
  no history row is created: the table of history rows and its next id are as before
  the run, no save of a history row is among the calls made, and the page of results
  is not rendered. The run links the file it wrote to no history row: every file,
  also that one, is named by the same history rows as before the run, so by none when
  no row named its key before.
\<close>

theorem inference_failure_creates_no_history:
  assumes "files_imagen req = Some f"
    and "get_inference_result env
           (storage_url env (generate_encrypted_filename (u_sha256 env) (name f))) = None"
  shows "historiales (snd (subir_imagen env req s)) = historiales s
       \<and> next_historial_id (snd (subir_imagen env req s)) = next_historial_id s
       \<and> (\<exists>es. events (snd (subir_imagen env req s)) = events s @ es
                \<and> (\<forall>hid. HistorialSaved hid \<notin> set es))
       \<and> (\<forall>k. linked_rows (snd (subir_imagen env req s)) k = linked_rows s k)
       \<and> (linked_rows s (generate_encrypted_filename (u_sha256 env) (name f)) = {}
            \<longrightarrow> linked_rows (snd (subir_imagen env req s))
                  (generate_encrypted_filename (u_sha256 env) (name f)) = {})
       \<and> (\<forall>g p u1 u2. fst (subir_imagen env req s) \<noteq> Inr (Resultados g p u1 u2))"
proof -
  let ?r = "subir_imagen env req s"
  let ?a = "atomic (upload_block env req) s"
  from upload_block_no_inference [OF assms, of s] obtain es where
    es: "\<forall>hid. HistorialSaved hid \<notin> set es"
    and h: "historiales (snd (upload_block env req s)) = historiales s"
    and n: "next_historial_id (snd (upload_block env req s)) = next_historial_id s"
    and ev: "events (snd (upload_block env req s)) = events s @ es"
    and r: "\<forall>g p u1 u2. fst (upload_block env req s) \<noteq> Inr (Resultados g p u1 u2)"
    by blast
  have ah: "historiales (snd ?a) = historiales s"
  proof -
    from atomic_snd [of "upload_block env req" s] show ?thesis
    proof
      assume "historiales (snd ?a) = historiales s"
      then show ?thesis .
    next
      assume "snd ?a = snd (upload_block env req s)"
      then show ?thesis using h by simp
    qed
  qed
  have an: "next_historial_id (snd ?a) = next_historial_id s"
    using atomic_fields [of "upload_block env req" s] n by simp
  have ae: "events (snd ?a) = events s @ es"
    using atomic_fields [of "upload_block env req" s] ev by simp
  have ar: "\<forall>g p u1 u2. fst ?a \<noteq> Inr (Resultados g p u1 u2)"
    using atomic_fst [of "upload_block env req" s] r by simp
  have main: "historiales (snd ?r) = historiales s
       \<and> next_historial_id (snd ?r) = next_historial_id s
       \<and> (\<exists>es. events (snd ?r) = events s @ es \<and> (\<forall>hid. HistorialSaved hid \<notin> set es))
       \<and> (\<forall>g p u1 u2. fst ?r \<noteq> Inr (Resultados g p u1 u2))"
  proof -
    from subir_imagen_shape [of env req s] show ?thesis
    proof
      assume "\<exists>r. ?r = (r, s) \<and> (\<forall>g p u1 u2. r \<noteq> Inr (Resultados g p u1 u2))"
      then obtain r0 where r0: "?r = (r0, s)"
        and nr: "\<forall>g p u1 u2. r0 \<noteq> Inr (Resultados g p u1 u2)"
        by blast
      have "events (snd ?r) = events s @ []" using r0 by simp
      then have "\<exists>es. events (snd ?r) = events s @ es \<and> (\<forall>hid. HistorialSaved hid \<notin> set es)"
        by (intro exI [of _ "[]"]) simp
      then show ?thesis using r0 nr by simp
    next
      assume b: "?r =
          (case ?a of
             (Inl e, s') \<Rightarrow> (Inr (Subir_imagen [msg_retry]), s')
           | (Inr r, s') \<Rightarrow> (Inr r, s'))"
      obtain x s' where a: "?a = (x, s')" by (cases ?a)
      have sn: "snd ?r = s'"
        using a b by (cases x) simp_all
      have fs: "\<forall>g p u1 u2. fst ?r \<noteq> Inr (Resultados g p u1 u2)"
      proof (cases x)
        case (Inl e)
        then show ?thesis using a b by simp
      next
        case (Inr r1)
        then have "fst ?r = fst ?a" using a b by simp
        then show ?thesis using ar by simp
      qed
      have s': "s' = snd ?a" using a by simp
      have "\<exists>es. events (snd ?r) = events s @ es \<and> (\<forall>hid. HistorialSaved hid \<notin> set es)"
        using ae es sn s' by (intro exI [of _ es]) simp
      then show ?thesis using ah an fs sn s' by simp
    qed
  qed
  have links: "\<forall>k. linked_rows (snd ?r) k = linked_rows s k"
  proof
    fix k
    from main have "historiales (snd ?r) = historiales s" by blast
    then show "linked_rows (snd ?r) k = linked_rows s k" by (rule linked_rows_cong)
  qed
  then have "linked_rows s (generate_encrypted_filename (u_sha256 env) (name f)) = {}
            \<longrightarrow> linked_rows (snd ?r)
                  (generate_encrypted_filename (u_sha256 env) (name f)) = {}"
    by simp
  with main links show ?thesis by blast
qed

lemma xray_inference_down: "get_inference_result xray_env url = None"
  by (simp add: get_inference_result_def get_inference_client_def xray_env_def toy_env_def)

lemma toy_request_fields:
  "is_post toy_request" "form_is_valid toy_request"
  "files_imagen toy_request
     = Some \<lparr>name = ''xray.jpg'', size_bytes = 2000000, stream = Some (500, 500)\<rparr>"
  "form_paciente_nombre toy_request = ''Juan''"
  by (simp_all add: toy_request_def)

lemma xray_env_fields:
  "imagen_save_error xray_env = None" "download_image xray_env url = Some []"
  "to_cv2 xray_env i = Inr i" "u_sha256 xray_env = sha256_of_xray"
  "read_bytes xray_env st = ''raw''" "now xray_env = \<lparr>instant = 0, tzname = ''UTC''\<rparr>"
  "u_pil xray_env = toy_pil"
  by (simp_all add: xray_env_def toy_env_def)

lemma xray_request_valid:
  "validate_image toy_pil (files_imagen toy_request) = Inr (True, None)"
proof -
  have "validate_file_size 2000000"
    by (simp add: validate_file_size_def MAX_FILE_SIZE_def)
  moreover have "decode_image toy_pil (Some (500, 500))
                   = (Inr \<lparr>width = 500, height = 500\<rparr>, Some (500, 500))"
    by (simp add: decode_image_def toy_pil_def)
  ultimately show ?thesis
    using xray_jpg_ext_ok
    by (simp add: validate_image_value validate_image_body_def toy_request_fields
        validate_image_dimensions_def MIN_DIMENSION_def MAX_DIMENSION_def)
qed

lemma xray_key_eq: "generate_encrypted_filename sha256_of_xray ''xray.jpg'' = xray_key"
  by (simp add: generate_encrypted_filename_def split_xray_jpg sha256_of_xray_def xray_key_def)

lemma xray_upload_block:
  "upload_block xray_env toy_request s
     = (Inr (Subir_imagen [msg_inference]),
        s\<lparr>blobs := (blobs s)(xray_key \<mapsto> ''raw''),
          imagenes := (imagenes s)(next_imagen_id s \<mapsto>
             \<lparr>i_imagen = xray_key, i_paciente_nombre = ''Juan'',
              i_fecha = Some \<lparr>instant = 0, tzname = ''UTC''\<rparr>\<rparr>),
          next_imagen_id := Suc (next_imagen_id s),
          events := events s @ [BlobWritten xray_key, ImagenSaved (next_imagen_id s)]\<rparr>)"
  by (simp add: upload_block_def imagen_obj_save_def Let_def toy_request_fields
      xray_env_fields xray_inference_down xray_key_eq)

lemma xray_run:
  "subir_imagen xray_env toy_request s
     = (Inr (Subir_imagen [msg_inference]),
        s\<lparr>blobs := (blobs s)(xray_key \<mapsto> ''raw''),
          imagenes := (imagenes s)(next_imagen_id s \<mapsto>
             \<lparr>i_imagen = xray_key, i_paciente_nombre = ''Juan'',
              i_fecha = Some \<lparr>instant = 0, tzname = ''UTC''\<rparr>\<rparr>),
          next_imagen_id := Suc (next_imagen_id s),
          events := events s @ [BlobWritten xray_key, ImagenSaved (next_imagen_id s)]\<rparr>)"
  using xray_request_valid
  by (simp add: subir_imagen_def toy_request_fields(1,2) xray_env_fields(7) atomic_def
      xray_upload_block)

text \<open>
  A second upload of a file named \<open>xray.jpg\<close>, with the inference service down, after
  a first one that succeeded: the run writes the image as uploaded under the key of
  the first upload, and the history row of the first upload names this file.
\<close>

theorem reupload_blob_linked_counterexample:
  "get_inference_result xray_env (storage_url xray_env xray_key) = None
   \<and> fst (subir_imagen xray_env toy_request store_seen) = Inr (Subir_imagen [msg_inference])
   \<and> blobs store_seen xray_key = Some ''annotated''
   \<and> blobs (snd (subir_imagen xray_env toy_request store_seen)) xray_key = Some ''raw''
   \<and> linked_rows (snd (subir_imagen xray_env toy_request store_seen)) xray_key = {7}"
proof -
  have "linked_rows (snd (subir_imagen xray_env toy_request store_seen)) xray_key = {7}"
    by (auto simp: xray_run linked_rows_def store_seen_def split: option.splits if_splits)
  then show ?thesis
    by (simp add: xray_run xray_inference_down) (simp add: store_seen_def)
qed

theorem inference_failure_creates_no_history_witness:
  "fst (subir_imagen xray_env toy_request store7) = Inr (Subir_imagen [msg_inference])
   \<and> blobs (snd (subir_imagen xray_env toy_request store7)) xray_key = Some ''raw''
   \<and> historiales (snd (subir_imagen xray_env toy_request store7)) = historiales store7
   \<and> next_historial_id (snd (subir_imagen xray_env toy_request store7)) = 8
   \<and> linked_rows (snd (subir_imagen xray_env toy_request store7)) xray_key = {}
   \<and> historiales (snd (subir_imagen xray_env toy_request store_seen))
       = historiales store_seen"
proof -
  note t1 = inference_failure_creates_no_history
    [OF toy_request_fields(3) xray_inference_down, of store7]
  note t2 = inference_failure_creates_no_history
    [OF toy_request_fields(3) xray_inference_down, of store_seen]
  have l0: "linked_rows store7 xray_key = {}"
    by (auto simp: linked_rows_def store7_def row7_def xray_key_def
        split: option.splits if_splits)
  have n0: "next_historial_id store7 = 8" by (simp add: store7_def)
  have k: "generate_encrypted_filename (u_sha256 xray_env) ''xray.jpg'' = xray_key"
    by (simp add: xray_env_fields xray_key_eq)
  from t1 t2 l0 n0 k show ?thesis
    by (simp add: xray_run)
qed

end
